theory Spec2Isabelle
  imports Main "HOL-Library.Word"
begin

unbundle bit_operations_syntax

section \<open>mlx5 vDPA driver: data model\<close>

text \<open>
  The development follows \<^verbatim>\<open>drivers/net/mlx5/mlx5_vdpa.c\<close>. C's \<^verbatim>\<open>uintN_t\<close> are
  \<open>N word\<close>; an \<^verbatim>\<open>int\<close> that only carries an identifier, a file descriptor or a
  return code is an \<open>int\<close>; an \<^verbatim>\<open>int\<close> whose bits are shifted or packed is a
  \<open>32 word\<close> read in two's complement (\<open>sint\<close>, \<open>scast\<close>, \<open>signed_drop_bit\<close>). A pointer to a DevX object is an \<open>obj_ptr\<close>, with \<open>None\<close> for NULL.
\<close>

type_synonym obj_ptr = "nat option"

subsection \<open>Structures (lines 20-75)\<close>

definition MLX5_VDPA_SW_MAX_VIRTQS_SUPPORTED :: nat where
  "MLX5_VDPA_SW_MAX_VIRTQS_SUPPORTED = 1"

definition SPECIAL_CQ_FOR_VDPA :: "32 word" where
  "SPECIAL_CQ_FOR_VDPA = 0"

text \<open>
  The feature bits come from the vhost library's headers, which are not part of this
  driver: \<^verbatim>\<open>VHOST_USER_F_PROTOCOL_FEATURES\<close> is bit 30 and \<^verbatim>\<open>VIRTIO_F_VERSION_1\<close>
  bit 32; \<^verbatim>\<open>VHOST_USER_PROTOCOL_F_SLAVE_REQ\<close>, \<^verbatim>\<open>_SLAVE_SEND_FD\<close> and
  \<^verbatim>\<open>_HOST_NOTIFIER\<close> are the protocol bits 5, 10 and 11.
\<close>

definition MLX5_VDPA_FEATURES :: "64 word" where
  "MLX5_VDPA_FEATURES = push_bit 30 1 OR push_bit 32 1"

definition MLX5_VDPA_PROTOCOL_FEATURES :: "64 word" where
  "MLX5_VDPA_PROTOCOL_FEATURES = push_bit 5 1 OR push_bit 10 1 OR push_bit 11 1"

record mlx5_vdpa_caps =
  dump_mkey :: "32 word"
  max_num_virtqs :: "16 word"
  virtio_net_features :: "64 word"
  virtio_protocol_features :: "64 word"

record virtq_info =
  rqn :: "32 word"
  rq_obj :: obj_ptr

text \<open>\<open>tid\<close> is the \<^verbatim>\<open>pthread_t\<close>, 0 when there is no thread; \<open>notify_base\<close> is NULL as \<open>None\<close>.\<close>

record mlx5_vdpa_relay_thread =
  epfd :: int
  tid :: nat
  notify_base :: "nat option"

record ibv_context =
  cmd_fd :: int

text \<open>
  \<open>priv_id\<close> is the field \<^verbatim>\<open>id\<close>. \<open>virtq\<close> is the array
  \<^verbatim>\<open>virtq[MLX5_VDPA_SW_MAX_VIRTQS_SUPPORTED * 2]\<close>: a list of that length, and an access
  past its end is a \<open>fault\<close> of the model, as it is undefined in C. The PCI address
  \<^verbatim>\<open>dev_addr\<close> is only handed to the vhost library at registration and is left out.
\<close>

record vdpa_priv =
  priv_id :: int
  vid :: int
  pdn :: "32 word"
  nr_vring :: "16 word"
  pd_obj :: obj_ptr
  dev_attached :: int
  ctx :: ibv_context
  caps :: mlx5_vdpa_caps
  virtq :: "virtq_info list"
  relay :: mlx5_vdpa_relay_thread

datatype fault = OutOfBounds

subsection \<open>The accelerator, the vhost library and the operating system\<close>

text \<open>
  A DevX command as the driver fills it in (\<^verbatim>\<open>MLX5_SET\<close> on the \<^verbatim>\<open>in\<close> buffer), and
  the fields it reads back from an \<^verbatim>\<open>out\<close> buffer (\<^verbatim>\<open>MLX5_GET\<close>). The layouts are
  those of \<^verbatim>\<open>mlx5_prm.h\<close>; only the decoded fields are kept.
\<close>

datatype hca_cap_type = MLX5_HCA_CAP_GENERAL | MLX5_HCA_CAP_DEVICE_EMULATION

datatype devx_in =
    MLX5_CMD_OP_ALLOC_PD
  | MLX5_CMD_OP_CREATE_RQ (in_cqn: "32 word") (in_log_wq_sz: "16 word") (in_pd: "32 word")
  | MLX5_CMD_OP_QUERY_HCA_CAP hca_cap_type
  | MLX5_CMD_OP_QUERY_SPECIAL_CONTEXTS

record devx_out =
  out_pd :: "32 word"
  out_rqn :: "32 word"
  out_cap_dump_fill_mkey :: "8 word"
  out_general_obj_types :: "64 word"
  out_max_num_of_virtqs :: "32 word"
  out_dump_fill_mkey :: "32 word"

record rte_vhost_vring =
  vring_size :: "16 word"
  kickfd :: "32 word"
  callfd :: "32 word"

text \<open>
  Everything outside the driver is a deterministic machine with a state \<open>'h\<close> of its
  own: each call takes the state and returns its result with the next state. The
  theorems hold for every such machine. \<open>sys_mmap\<close> returns \<open>None\<close> for
  \<^verbatim>\<open>MAP_FAILED\<close>; \<open>sys_pthread_create\<close> returns the code and the thread id it stored;
  \<open>sys_epoll_wait\<close> returns \<^verbatim>\<open>errno\<close> when it failed and otherwise the
  \<^verbatim>\<open>data.u64\<close> of the events it stored, as many as the count it returned; \<open>sys_read\<close> returns the count and \<^verbatim>\<open>errno\<close>. \<open>open_ib_device\<close> stands for
  lines 579-626 of the probe (finding the IB device of the PCI slot, opening it, allocating
  the zeroed context): the opened context, or the \<^verbatim>\<open>rte_errno\<close> of the failure.
\<close>

record 'h platform =
  dv_devx_obj_create :: "ibv_context \<Rightarrow> devx_in \<Rightarrow> 'h \<Rightarrow> (obj_ptr \<times> devx_out) \<times> 'h"
  dv_devx_obj_destroy :: "obj_ptr \<Rightarrow> 'h \<Rightarrow> int \<times> 'h"
  dv_devx_general_cmd :: "ibv_context \<Rightarrow> devx_in \<Rightarrow> 'h \<Rightarrow> (int \<times> devx_out) \<times> 'h"
  rte_vhost_get_vring_num :: "int \<Rightarrow> 'h \<Rightarrow> 16 word"
  rte_vhost_get_vhost_vring :: "int \<Rightarrow> int \<Rightarrow> 'h \<Rightarrow> rte_vhost_vring"
  rte_vhost_get_vdpa_device_id :: "int \<Rightarrow> 'h \<Rightarrow> int"
  rte_vdpa_register_device :: "'h \<Rightarrow> int \<times> 'h"
  rte_errno :: "'h \<Rightarrow> int"
  open_ib_device :: "'h \<Rightarrow> (int + ibv_context) \<times> 'h"
  sysconf_SC_PAGESIZE :: "'h \<Rightarrow> 64 word"
  sys_mmap :: "64 word \<Rightarrow> int \<Rightarrow> 64 word \<Rightarrow> 'h \<Rightarrow> nat option \<times> 'h"
  sys_munmap :: "nat option \<Rightarrow> 64 word \<Rightarrow> 'h \<Rightarrow> 'h"
  sys_pthread_create :: "'h \<Rightarrow> (int \<times> nat) \<times> 'h"
  sys_pthread_cancel :: "nat \<Rightarrow> 'h \<Rightarrow> 'h"
  sys_pthread_join :: "nat \<Rightarrow> 'h \<Rightarrow> 'h"
  sys_close :: "int \<Rightarrow> 'h \<Rightarrow> 'h"
  sys_epoll_create :: "'h \<Rightarrow> int \<times> 'h"
  sys_epoll_ctl_add :: "int \<Rightarrow> 32 word \<Rightarrow> 64 word \<Rightarrow> 'h \<Rightarrow> (int \<times> int) \<times> 'h"
  sys_epoll_wait :: "int \<Rightarrow> 32 word \<Rightarrow> 'h \<Rightarrow> (int + 64 word list) \<times> 'h"
  sys_read :: "32 word \<Rightarrow> 'h \<Rightarrow> (int \<times> int) \<times> 'h"
  rte_write32 :: "32 word \<Rightarrow> nat option \<Rightarrow> 'h \<Rightarrow> 'h"

text \<open>
  The calls the driver makes are recorded, in order, with their arguments and results;
  \<^verbatim>\<open>DRV_LOG\<close> is recorded with its level, its format and its arguments.
\<close>

datatype log_level = ERR | INFO | DEBUG

datatype event =
    DrvLog log_level string "int list"
  | DevxObjCreate devx_in obj_ptr
  | DevxObjDestroy obj_ptr int
  | DevxGeneralCmd devx_in int
  | VhostGetVring int int
  | Mmap "64 word" int "64 word" "nat option"
  | Munmap "nat option" "64 word"
  | PthreadCreate int nat
  | PthreadCancel nat
  | PthreadJoin nat
  | Close int
  | EpollCtlAdd int "32 word" "64 word" int
  | Read "32 word" int int
  | RteWrite32 "32 word" "nat option"

record 'h world =
  hw :: 'h
  trace :: "event list"

definition DRV_LOG :: "log_level \<Rightarrow> string \<Rightarrow> int list \<Rightarrow> 'h world \<Rightarrow> 'h world" where
  "DRV_LOG lvl fmt args w = w\<lparr>trace := trace w @ [DrvLog lvl fmt args]\<rparr>"

definition glue_dv_devx_obj_create ::
  "'h platform \<Rightarrow> ibv_context \<Rightarrow> devx_in \<Rightarrow> 'h world \<Rightarrow> (obj_ptr \<times> devx_out) \<times> 'h world" where
  "glue_dv_devx_obj_create P c inb w =
     (case dv_devx_obj_create P c inb (hw w) of
        ((obj, out), h) \<Rightarrow> ((obj, out), w\<lparr>hw := h, trace := trace w @ [DevxObjCreate inb obj]\<rparr>))"

definition glue_dv_devx_obj_destroy ::
  "'h platform \<Rightarrow> obj_ptr \<Rightarrow> 'h world \<Rightarrow> int \<times> 'h world" where
  "glue_dv_devx_obj_destroy P obj w =
     (case dv_devx_obj_destroy P obj (hw w) of
        (r, h) \<Rightarrow> (r, w\<lparr>hw := h, trace := trace w @ [DevxObjDestroy obj r]\<rparr>))"

definition glue_dv_devx_general_cmd ::
  "'h platform \<Rightarrow> ibv_context \<Rightarrow> devx_in \<Rightarrow> 'h world \<Rightarrow> (int \<times> devx_out) \<times> 'h world" where
  "glue_dv_devx_general_cmd P c inb w =
     (case dv_devx_general_cmd P c inb (hw w) of
        ((r, out), h) \<Rightarrow> ((r, out), w\<lparr>hw := h, trace := trace w @ [DevxGeneralCmd inb r]\<rparr>))"

definition get_vhost_vring :: "'h platform \<Rightarrow> int \<Rightarrow> int \<Rightarrow> 'h world \<Rightarrow> rte_vhost_vring \<times> 'h world" where
  "get_vhost_vring P v i w =
     (rte_vhost_get_vhost_vring P v i (hw w), w\<lparr>trace := trace w @ [VhostGetVring v i]\<rparr>)"

subsection \<open>Resource provisioning (lines 77-157)\<close>

definition create_pd :: "'h platform \<Rightarrow> vdpa_priv \<Rightarrow> 'h world \<Rightarrow> int \<times> vdpa_priv \<times> 'h world" where
  "create_pd P priv w =
     (case glue_dv_devx_obj_create P (ctx priv) MLX5_CMD_OP_ALLOC_PD w of
        ((pd, out), w1) \<Rightarrow>
          if pd = None then (- 1, priv, DRV_LOG ERR ''PD allocation failure'' [] w1)
          else (0, priv\<lparr>pdn := out_pd out, pd_obj := pd\<rparr>, w1))"

text \<open>
  \<^verbatim>\<open>priv->virtq[idx]\<close> is written only after the object was created; \<open>idx\<close> past the
  end of the array is the fault.
\<close>

definition create_rq ::
  "'h platform \<Rightarrow> vdpa_priv \<Rightarrow> 16 word \<Rightarrow> 16 word \<Rightarrow> 'h world \<Rightarrow> fault + int \<times> vdpa_priv \<times> 'h world" where
  "create_rq P priv qsize idx w =
     (case glue_dv_devx_obj_create P (ctx priv)
             (MLX5_CMD_OP_CREATE_RQ SPECIAL_CQ_FOR_VDPA qsize (pdn priv)) w of
        ((rq, out), w1) \<Rightarrow>
          if rq = None then Inr (- 1, priv, DRV_LOG DEBUG ''Failed to CREATE_RQ through Devx'' [] w1)
          else if unat idx < length (virtq priv)
          then Inr (0, priv\<lparr>virtq := (virtq priv)[unat idx := \<lparr>rqn = out_rqn out, rq_obj = rq\<rparr>]\<rparr>, w1)
          else Inl OutOfBounds)"

text \<open>
  The loop of \<^verbatim>\<open>mlx5_vdpa_setup_rx\<close>, from index \<open>i\<close>: \<open>nr\<close> is at most 65535, so the
  \<^verbatim>\<open>int\<close> counter is a \<open>nat\<close> and \<open>i\<close> fits the \<^verbatim>\<open>uint16_t\<close> parameter of \<^verbatim>\<open>create_rq\<close>.
  It returns the counter, the context and the world.
\<close>

function setup_rx_loop ::
  "'h platform \<Rightarrow> nat \<Rightarrow> nat \<Rightarrow> vdpa_priv \<Rightarrow> 'h world \<Rightarrow> fault + nat \<times> vdpa_priv \<times> 'h world" where
  "setup_rx_loop P i nr priv w =
     (if i < nr then
        (if i = 0 \<or> i mod 2 = 0 then
           (case get_vhost_vring P (vid priv) (int i) w of
              (vq, w1) \<Rightarrow>
                (case create_rq P priv (vring_size vq) (of_nat i) w1 of
                   Inl f \<Rightarrow> Inl f
                 | Inr (r, priv1, w2) \<Rightarrow>
                     if r \<noteq> 0 then
                       setup_rx_loop P (i + 1) nr priv1
                         (DRV_LOG INFO ''Contiuing without RQ for Virtqueue %d'' [int i]
                           (DRV_LOG ERR ''Create RQ failed for Virtqueue %d'' [int i] w2))
                     else setup_rx_loop P (i + 1) nr priv1 w2))
         else setup_rx_loop P (i + 1) nr priv w)
      else Inr (i, priv, w))"
  by pat_completeness auto
termination
  by (relation "measure (\<lambda>(P, i, nr, priv, w). nr - i)") auto

definition mlx5_vdpa_setup_rx ::
  "'h platform \<Rightarrow> vdpa_priv \<Rightarrow> 'h world \<Rightarrow> fault + int \<times> vdpa_priv \<times> 'h world" where
  "mlx5_vdpa_setup_rx P priv w =
     (let nr = unat (rte_vhost_get_vring_num P (vid priv) (hw w)) in
      case setup_rx_loop P 0 nr priv w of
        Inl f \<Rightarrow> Inl f
      | Inr (i, priv1, w1) \<Rightarrow> Inr (0, priv1\<lparr>nr_vring := of_nat i\<rparr>, w1))"

text \<open>The loop of \<^verbatim>\<open>mlx5_vdpa_release_rx\<close>, from index \<open>i\<close>.\<close>

function release_rx_loop ::
  "'h platform \<Rightarrow> nat \<Rightarrow> vdpa_priv \<Rightarrow> 'h world \<Rightarrow> fault + int \<times> vdpa_priv \<times> 'h world" where
  "release_rx_loop P i priv w =
     (if i < unat (nr_vring priv) then
        (if i = 0 \<or> i mod 2 = 0 then
           (if i < length (virtq priv) then
              (case glue_dv_devx_obj_destroy P (rq_obj (virtq priv ! i)) w of
                 (r, w1) \<Rightarrow>
                   if r \<noteq> 0
                   then Inr (- 1, priv, DRV_LOG ERR ''Error in destory RQ for Virtqueue %d'' [int i] w1)
                   else release_rx_loop P (i + 1)
                          (priv\<lparr>virtq := (virtq priv)[i := (virtq priv ! i)\<lparr>rqn := 0\<rparr>]\<rparr>) w1)
            else Inl OutOfBounds)
         else release_rx_loop P (i + 1) priv w)
      else Inr (0, priv, w))"
  by pat_completeness auto
termination
  by (relation "measure (\<lambda>(P, i, priv, w). unat (nr_vring priv) - i)") auto

definition mlx5_vdpa_release_rx ::
  "'h platform \<Rightarrow> vdpa_priv \<Rightarrow> 'h world \<Rightarrow> fault + int \<times> vdpa_priv \<times> 'h world" where
  "mlx5_vdpa_release_rx P priv w = release_rx_loop P 0 priv w"

subsection \<open>Registry (lines 67-75, 159-204, 435-447)\<close>

text \<open>
  The tail queue \<^verbatim>\<open>priv_list\<close> is the list of the contexts its elements point to, in
  queue order. An element is named by its position, which never changes: elements are
  only added at the tail. \<^verbatim>\<open>TAILQ_FOREACH\<close> stops at the first element whose id matches.
  The lock is not modelled: the entry points run one at a time.
\<close>

fun find_from :: "nat \<Rightarrow> vdpa_priv list \<Rightarrow> int \<Rightarrow> nat option" where
  "find_from k [] did = None"
| "find_from k (p # ps) did = (if did = priv_id p then Some k else find_from (Suc k) ps did)"

definition find_priv_resource_by_did :: "vdpa_priv list \<Rightarrow> int \<Rightarrow> nat option" where
  "find_priv_resource_by_did priv_list did = find_from 0 priv_list did"




subsection \<open>Notification area (lines 206-259)\<close>

definition MLX5_IB_MMAP_CMD_SHIFT :: nat where
  "MLX5_IB_MMAP_CMD_SHIFT = 8"

definition MLX5_IB_MMAP_INDEX_MASK :: "32 word" where
  "MLX5_IB_MMAP_INDEX_MASK = push_bit MLX5_IB_MMAP_CMD_SHIFT 1 - 1"

definition MLX5_IB_CMD_SIZE :: nat where
  "MLX5_IB_CMD_SIZE = 8"

definition MLX5_IB_MMAP_VIRTIO_NOTIFY :: "32 word" where
  "MLX5_IB_MMAP_VIRTIO_NOTIFY = 9"

text \<open>
  \<^verbatim>\<open>*offset |= (command << MLX5_IB_MMAP_CMD_SHIFT)\<close>: the shift is done on \<^verbatim>\<open>int\<close>,
  the result of the bitwise or is truncated to the 16 bits of \<^verbatim>\<open>*offset\<close>.
\<close>

definition mlx5_vdpa_set_command :: "32 word \<Rightarrow> 16 word \<Rightarrow> 16 word" where
  "mlx5_vdpa_set_command command offset =
     ucast ((ucast offset :: 32 word) OR push_bit MLX5_IB_MMAP_CMD_SHIFT command)"

definition mlx5_vdpa_set_ext_index :: "32 word \<Rightarrow> 16 word \<Rightarrow> 16 word" where
  "mlx5_vdpa_set_ext_index index offset =
     (let shift = MLX5_IB_MMAP_CMD_SHIFT + MLX5_IB_CMD_SIZE
      in ucast ((ucast offset :: 32 word) OR
                (push_bit shift (signed_drop_bit MLX5_IB_MMAP_CMD_SHIFT index) OR
                 (index AND MLX5_IB_MMAP_INDEX_MASK))))"

text \<open>The queue id is unused: there is a single offset for all of the queues' doorbells.\<close>

definition mlx5_vdpa_get_notify_offset :: "int \<Rightarrow> 16 word" where
  "mlx5_vdpa_get_notify_offset qid =
     mlx5_vdpa_set_ext_index 0 (mlx5_vdpa_set_command MLX5_IB_MMAP_VIRTIO_NOTIFY 0)"

text \<open>
  \<^verbatim>\<open>mlx5_vdpa_report_notify_area(vid, qid, &offset, &size)\<close>. The host's page size,
  \<^verbatim>\<open>sysconf(_SC_PAGESIZE)\<close>, is a parameter: a \<^verbatim>\<open>long\<close>, given as its 64-bit
  pattern, which the conversions to \<^verbatim>\<open>uint64_t\<close> on lines 247 and 255 keep. The
  result is the return code and the two values stored through the pointers, and the
  world with the message of lines 256-257 logged (the offset printed unsigned, the size
  signed).
\<close>

definition mlx5_vdpa_report_notify_area ::
  "64 word \<Rightarrow> int \<Rightarrow> int \<Rightarrow> 'h world \<Rightarrow> (int \<times> 64 word \<times> 64 word) \<times> 'h world" where
  "mlx5_vdpa_report_notify_area page_size v qid w =
     (let offset = (ucast (mlx5_vdpa_get_notify_offset qid) :: 64 word);
          offset = offset * page_size;
          size = page_size
      in ((0, offset, size),
          DRV_LOG DEBUG ''Notify offset is 0x% size is %'' [uint offset, sint size] w))"

subsection \<open>The correlation tag of a kick descriptor (lines 293, 308, 309)\<close>

text \<open>
  \<^verbatim>\<open>ev.data.u64 = qid | (uint64_t)vring.kickfd << 32\<close>, with \<^verbatim>\<open>uint32_t qid\<close> and
  \<^verbatim>\<open>int kickfd\<close>: the conversion of the descriptor to 64 bits extends its sign.
\<close>

definition ev_data_u64 :: "32 word \<Rightarrow> 32 word \<Rightarrow> 64 word" where
  "ev_data_u64 qid fd = ucast qid OR push_bit 32 (scast fd)"

text \<open>
  \<^verbatim>\<open>qid = events[i].data.u32\<close>: the member of the union that shares the storage of
  \<^verbatim>\<open>u64\<close>; on the little-endian hosts of this driver it is the low 32 bits.
\<close>

definition data_u32 :: "64 word \<Rightarrow> 32 word" where
  "data_u32 u64 = ucast u64"

text \<open>\<^verbatim>\<open>kickfd = (uint32_t)(events[i].data.u64 >> 32)\<close>, stored in an \<^verbatim>\<open>int\<close>.\<close>

definition data_kickfd :: "64 word \<Rightarrow> 32 word" where
  "data_kickfd u64 = ucast (drop_bit 32 u64)"

subsection \<open>Notification relay (lines 261-358, 388-405)\<close>

text \<open>The values of \<^verbatim>\<open>errno\<close> the worker tests, as Linux defines them.\<close>

definition EINTR :: int where
  "EINTR = 4"

definition EAGAIN :: int where
  "EAGAIN = 11"

definition EWOULDBLOCK :: int where
  "EWOULDBLOCK = 11"

definition EINVAL :: int where
  "EINVAL = 22"

text \<open>\<^verbatim>\<open>rte_write32(qid, priv->relay.notify_base)\<close>: one write of 4 bytes.\<close>

definition mlx5_vdpa_notify_queue :: "'h platform \<Rightarrow> vdpa_priv \<Rightarrow> 32 word \<Rightarrow> 'h world \<Rightarrow> 'h world" where
  "mlx5_vdpa_notify_queue P priv qid w =
     w\<lparr>hw := rte_write32 P qid (notify_base (relay priv)) (hw w),
       trace := trace w @ [RteWrite32 qid (notify_base (relay priv))]\<rparr>"

text \<open>
  The \<^verbatim>\<open>do ... while (1)\<close> of lines 310-322: \<^verbatim>\<open>read(kickfd, &buf, 8)\<close> is repeated while
  it fails with one of the three transient codes. Nothing bounds the repetitions, so the
  loop is a partial function: \<open>None\<close> when it never ends.
\<close>

partial_function (option) read_kickfd :: "'h platform \<Rightarrow> 32 word \<Rightarrow> 'h world \<Rightarrow> 'h world option" where
  "read_kickfd P kfd w =
     (case sys_read P kfd (hw w) of
        ((nbytes, errno), h) \<Rightarrow>
          if nbytes < 0 \<and> (errno = EINTR \<or> errno = EWOULDBLOCK \<or> errno = EAGAIN)
          then read_kickfd P kfd (w\<lparr>hw := h, trace := trace w @ [Read kfd nbytes errno]\<rparr>)
          else if nbytes < 0
          then Some (DRV_LOG INFO ''Error reading kickfd: %s'' [errno]
                       (w\<lparr>hw := h, trace := trace w @ [Read kfd nbytes errno]\<rparr>))
          else Some (w\<lparr>hw := h, trace := trace w @ [Read kfd nbytes errno]\<rparr>))"

text \<open>The body of the loop over the ready events (lines 308-323), for one event.\<close>

definition relay_event :: "'h platform \<Rightarrow> vdpa_priv \<Rightarrow> 64 word \<Rightarrow> 'h world \<Rightarrow> 'h world option" where
  "relay_event P priv u64 w =
     (let qid = data_u32 u64; kfd = data_kickfd u64 in
      case read_kickfd P kfd w of
        None \<Rightarrow> None
      | Some w1 \<Rightarrow> Some (mlx5_vdpa_notify_queue P priv qid w1))"

fun relay_events :: "'h platform \<Rightarrow> vdpa_priv \<Rightarrow> 64 word list \<Rightarrow> 'h world \<Rightarrow> 'h world option" where
  "relay_events P priv [] w = Some w"
| "relay_events P priv (e # es) w =
     (case relay_event P priv e w of
        None \<Rightarrow> None
      | Some w1 \<Rightarrow> relay_events P priv es w1)"

text \<open>
  One pass of the \<^verbatim>\<open>for (;;)\<close> after \<^verbatim>\<open>epoll_wait\<close> returned the ready events
  \<open>evs\<close> (\<^verbatim>\<open>nfds\<close> is their number): more events than the array \<^verbatim>\<open>events\<close> holds is the
  fault.
\<close>

definition relay_wake :: "'h platform \<Rightarrow> vdpa_priv \<Rightarrow> 64 word list \<Rightarrow> 'h world \<Rightarrow> (fault + 'h world) option" where
  "relay_wake P priv evs w =
     (if MLX5_VDPA_SW_MAX_VIRTQS_SUPPORTED * 2 < length evs then Some (Inl OutOfBounds)
      else map_option Inr (relay_events P priv evs w))"

text \<open>
  The \<^verbatim>\<open>for (;;)\<close> itself; \<open>sys_epoll_wait\<close> gives \<open>Inl errno\<close> for a negative \<^verbatim>\<open>nfds\<close>
  and \<open>Inr evs\<close> otherwise. The result is \<open>None\<close> while the worker never returns.
\<close>

partial_function (option) relay_loop ::
  "'h platform \<Rightarrow> vdpa_priv \<Rightarrow> int \<Rightarrow> 32 word \<Rightarrow> 'h world \<Rightarrow> (fault + 'h world) option" where
  "relay_loop P priv ep q_num w =
     (case sys_epoll_wait P ep q_num (hw w) of
        (Inl errno, h) \<Rightarrow>
          if errno = EINTR then relay_loop P priv ep q_num (w\<lparr>hw := h\<rparr>)
          else Some (Inr (DRV_LOG ERR ''epoll_wait return fail'' [] (w\<lparr>hw := h\<rparr>)))
      | (Inr evs, h) \<Rightarrow>
          (case relay_wake P priv evs (w\<lparr>hw := h\<rparr>) of
             None \<Rightarrow> None
           | Some (Inl f) \<Rightarrow> Some (Inl f)
           | Some (Inr w1) \<Rightarrow> relay_loop P priv ep q_num w1))"

text \<open>
  The registration loop of lines 290-298, from queue \<open>qid\<close>: \<open>False\<close> when
  \<^verbatim>\<open>epoll_ctl\<close> failed and the worker returns. The worker reads the rings of the vhost
  device \<^verbatim>\<open>priv->id\<close>.
\<close>

function relay_register ::
  "'h platform \<Rightarrow> vdpa_priv \<Rightarrow> int \<Rightarrow> nat \<Rightarrow> nat \<Rightarrow> 'h world \<Rightarrow> bool \<times> 'h world" where
  "relay_register P priv ep qid q_num w =
     (if qid < q_num then
        (case get_vhost_vring P (priv_id priv) (int qid) w of
           (vring, w1) \<Rightarrow>
             (case sys_epoll_ctl_add P ep (kickfd vring) (ev_data_u64 (of_nat qid) (kickfd vring)) (hw w1) of
                ((r, errno), h) \<Rightarrow>
                  if r < 0
                  then (False, DRV_LOG ERR ''epoll add error: %s'' [errno]
                          (w1\<lparr>hw := h, trace := trace w1 @
                             [EpollCtlAdd ep (kickfd vring) (ev_data_u64 (of_nat qid) (kickfd vring)) r]\<rparr>))
                  else relay_register P priv ep (qid + 1) q_num
                         (w1\<lparr>hw := h, trace := trace w1 @
                            [EpollCtlAdd ep (kickfd vring) (ev_data_u64 (of_nat qid) (kickfd vring)) r]\<rparr>)))
      else (True, w))"
  by pat_completeness auto
termination
  by (relation "measure (\<lambda>(P, priv, ep, qid, q_num, w). q_num - qid)") auto

text \<open>
  The worker thread. It returns the context (whose \<^verbatim>\<open>relay.epfd\<close> it sets) and the world
  when it returns, and \<open>None\<close> while it runs for ever.
\<close>

definition mlx5_vdpa_notify_relay ::
  "'h platform \<Rightarrow> vdpa_priv \<Rightarrow> 'h world \<Rightarrow> (fault + vdpa_priv \<times> 'h world) option" where
  "mlx5_vdpa_notify_relay P priv w =
     (let q_num = rte_vhost_get_vring_num P (priv_id priv) (hw w) in
      case sys_epoll_create P (hw w) of
        (ep, h) \<Rightarrow>
          if ep < 0 then Some (Inr (priv, DRV_LOG ERR ''failed to create epoll instance.'' [] (w\<lparr>hw := h\<rparr>)))
          else
            (let priv1 = priv\<lparr>relay := (relay priv)\<lparr>epfd := ep\<rparr>\<rparr> in
             case relay_register P priv1 ep 0 (unat q_num) (w\<lparr>hw := h\<rparr>) of
               (False, w1) \<Rightarrow> Some (Inr (priv1, w1))
             | (True, w1) \<Rightarrow>
                 (case relay_loop P priv1 ep (ucast q_num) w1 of
                    None \<Rightarrow> None
                  | Some (Inl f) \<Rightarrow> Some (Inl f)
                  | Some (Inr w2) \<Rightarrow> Some (Inr (priv1, w2)))))"

definition mlx5_vdpa_setup_notify_relay ::
  "'h platform \<Rightarrow> vdpa_priv \<Rightarrow> 'h world \<Rightarrow> int \<times> vdpa_priv \<times> 'h world" where
  "mlx5_vdpa_setup_notify_relay P priv w =
     (let page_size = sysconf_SC_PAGESIZE P (hw w) in
      case mlx5_vdpa_report_notify_area page_size (priv_id priv) 0 w of
        ((r, offset, sz), w0) \<Rightarrow>
          if r < 0 then (- 1, priv, w0)
          else
            (case sys_mmap P page_size (cmd_fd (ctx priv)) offset (hw w0) of
               (addr, h) \<Rightarrow>
                 (let w1 = w0\<lparr>hw := h, trace := trace w0 @ [Mmap page_size (cmd_fd (ctx priv)) offset addr]\<rparr> in
                  if addr = None
                  then (- 1, priv, DRV_LOG ERR ''Mapping doorbell page failed. device: %d'' [priv_id priv] w1)
                  else
                    (case sys_pthread_create P (hw w1) of
                       ((ret, t), h1) \<Rightarrow>
                         (let priv1 = priv\<lparr>relay := (relay priv)\<lparr>notify_base := addr, tid := t\<rparr>\<rparr>;
                              w2 = w1\<lparr>hw := h1, trace := trace w1 @ [PthreadCreate ret t]\<rparr> in
                          if ret \<noteq> 0
                          then (- 1, priv1, DRV_LOG ERR ''failed to create notify relay pthread.'' [] w2)
                          else (0, priv1, w2))))))"

definition mlx5_vdpa_unset_notify_relay ::
  "'h platform \<Rightarrow> vdpa_priv \<Rightarrow> 'h world \<Rightarrow> int \<times> vdpa_priv \<times> 'h world" where
  "mlx5_vdpa_unset_notify_relay P priv w =
     (let page_size = sysconf_SC_PAGESIZE P (hw w);
          t = tid (relay priv);
          w1 = (if t \<noteq> 0
                then w\<lparr>hw := sys_pthread_join P t (sys_pthread_cancel P t (hw w)),
                       trace := trace w @ [PthreadCancel t, PthreadJoin t]\<rparr>
                else w);
          ep = epfd (relay priv);
          w2 = (if 0 \<le> ep
                then w1\<lparr>hw := sys_close P ep (hw w1), trace := trace w1 @ [Close ep]\<rparr>
                else w1);
          base = notify_base (relay priv);
          w3 = w2\<lparr>hw := sys_munmap P base page_size (hw w2), trace := trace w2 @ [Munmap base page_size]\<rparr>
      in (0, priv\<lparr>relay := \<lparr>epfd = - 1, tid = 0, notify_base = None\<rparr>\<rparr>, w3))"

subsection \<open>Device lifecycle (lines 360-386, 407-433)\<close>

text \<open>
  The entry points take the registry and return it with the context of the device
  updated in place, at the position \<^verbatim>\<open>find_priv_resource_by_did\<close> gave.
\<close>

definition mlx5_vdpa_dev_config ::
  "'h platform \<Rightarrow> int \<Rightarrow> vdpa_priv list \<Rightarrow> 'h world \<Rightarrow> fault + int \<times> vdpa_priv list \<times> 'h world" where
  "mlx5_vdpa_dev_config P v priv_list w =
     (let did = rte_vhost_get_vdpa_device_id P v (hw w) in
      case find_priv_resource_by_did priv_list did of
        None \<Rightarrow> Inr (- 1, priv_list, DRV_LOG ERR ''Invalid device id: %d'' [did] w)
      | Some k \<Rightarrow>
          (case create_pd P ((priv_list ! k)\<lparr>vid := v\<rparr>) w of
             (r, priv1, w1) \<Rightarrow>
               if r \<noteq> 0 then Inr (- 1, priv_list[k := priv1], DRV_LOG ERR ''Error allocating PD'' [] w1)
               else
                 (case mlx5_vdpa_setup_rx P priv1 w1 of
                    Inl f \<Rightarrow> Inl f
                  | Inr (r2, priv2, w2) \<Rightarrow>
                      if r2 \<noteq> 0
                      then Inr (- 1, priv_list[k := priv2], DRV_LOG ERR ''Error setting up RX flow'' [] w2)
                      else
                        (case mlx5_vdpa_setup_notify_relay P priv2 w2 of
                           (r3, priv3, w3) \<Rightarrow>
                             Inr (0, priv_list[k := priv3\<lparr>dev_attached := 1\<rparr>], w3)))))"

definition mlx5_vdpa_dev_close ::
  "'h platform \<Rightarrow> int \<Rightarrow> vdpa_priv list \<Rightarrow> 'h world \<Rightarrow> fault + int \<times> vdpa_priv list \<times> 'h world" where
  "mlx5_vdpa_dev_close P v priv_list w =
     (let did = rte_vhost_get_vdpa_device_id P v (hw w) in
      case find_priv_resource_by_did priv_list did of
        None \<Rightarrow> Inr (- 1, priv_list, DRV_LOG ERR ''Invalid device id: %d'' [did] w)
      | Some k \<Rightarrow>
          (case mlx5_vdpa_unset_notify_relay P (priv_list ! k) w of
             (r, priv1, w1) \<Rightarrow>
               (case glue_dv_devx_obj_destroy P (pd_obj priv1) w1 of
                  (r2, w2) \<Rightarrow>
                    if r2 \<noteq> 0
                    then Inr (- 1, priv_list[k := priv1], DRV_LOG ERR ''Error when DEALLOCATING PD'' [] w2)
                    else
                      (case mlx5_vdpa_release_rx P (priv1\<lparr>pdn := 0\<rparr>) w2 of
                         Inl f \<Rightarrow> Inl f
                       | Inr (r3, priv3, w3) \<Rightarrow>
                           if r3 \<noteq> 0
                           then Inr (- 1, priv_list[k := priv3],
                                     DRV_LOG ERR ''Error in releasing RX resources'' [] w3)
                           else Inr (0, priv_list[k := priv3\<lparr>dev_attached := 0\<rparr>], w3)))))"

subsection \<open>Capabilities and registration (lines 449-515, 562-671)\<close>

text \<open>
  \<open>cap_virtq\<close> is the mask \<^verbatim>\<open>MLX5_GENERAL_OBJ_TYPES_CAP_VIRTQ\<close> of \<^verbatim>\<open>mlx5_prm.h\<close>.
  The third query is written to the \<^verbatim>\<open>out\<close> buffer of the first, which \<^verbatim>\<open>cap\<close> still
  points into. \<open>caps_tail\<close> is lines 507-514, which both branches of the \<^verbatim>\<open>if\<close> on
  line 489 reach.
\<close>

definition caps_tail :: "vdpa_priv \<Rightarrow> 'h world \<Rightarrow> int \<times> vdpa_priv \<times> 'h world" where
  "caps_tail priv w =
     (let priv1 = priv\<lparr>caps := (caps priv)
                   \<lparr>max_num_virtqs := of_nat MLX5_VDPA_SW_MAX_VIRTQS_SUPPORTED,
                    virtio_net_features := MLX5_VDPA_FEATURES,
                    virtio_protocol_features := MLX5_VDPA_PROTOCOL_FEATURES\<rparr>\<rparr>;
          w1 = DRV_LOG DEBUG ''Virtio Caps:'' [] w;
          w2 = DRV_LOG DEBUG ''dump_mkey=0x%x '' [uint (dump_mkey (caps priv1))] w1;
          w3 = DRV_LOG DEBUG ''max_num_virtqs=0x%x '' [uint (max_num_virtqs (caps priv1))] w2;
          w4 = DRV_LOG DEBUG ''features_bits=0x%'' [uint (virtio_net_features (caps priv1))] w3
      in (0, priv1, w4))"

definition mlx5_vdpa_query_virtio_caps ::
  "'h platform \<Rightarrow> 64 word \<Rightarrow> vdpa_priv \<Rightarrow> 'h world \<Rightarrow> int \<times> vdpa_priv \<times> 'h world" where
  "mlx5_vdpa_query_virtio_caps P cap_virtq priv w =
     (case glue_dv_devx_general_cmd P (ctx priv) (MLX5_CMD_OP_QUERY_HCA_CAP MLX5_HCA_CAP_GENERAL) w of
        ((r, out), w1) \<Rightarrow>
          if r \<noteq> 0 then (- 1, priv, DRV_LOG DEBUG ''Failed to Query Current HCA CAP section'' [] w1)
          else if out_cap_dump_fill_mkey out = 0
          then (- 1, priv, DRV_LOG DEBUG ''dump_fill_mkey is not supported'' [] w1)
          else
            (case glue_dv_devx_general_cmd P (ctx priv) MLX5_CMD_OP_QUERY_SPECIAL_CONTEXTS w1 of
               ((r2, out_special), w2) \<Rightarrow>
                 if r2 \<noteq> 0 then (- 1, priv, DRV_LOG DEBUG ''Failed to Query Special Contexts'' [] w2)
                 else
                   (let priv1 = priv\<lparr>caps := (caps priv)\<lparr>dump_mkey := out_dump_fill_mkey out_special\<rparr>\<rparr> in
                    if out_general_obj_types out AND cap_virtq \<noteq> 0 then
                      (case glue_dv_devx_general_cmd P (ctx priv)
                              (MLX5_CMD_OP_QUERY_HCA_CAP MLX5_HCA_CAP_DEVICE_EMULATION)
                              (DRV_LOG DEBUG ''Virtio acceleration supported by the device!'' [] w2) of
                         ((r3, out3), w3) \<Rightarrow>
                           if r3 \<noteq> 0
                           then (- 1, priv1, DRV_LOG DEBUG ''Failed to Query Emulation CAP section'' [] w3)
                           else caps_tail
                                  (priv1\<lparr>caps := (caps priv1)
                                     \<lparr>max_num_virtqs := ucast (out_max_num_of_virtqs out3)\<rparr>\<rparr>) w3)
                    else caps_tail
                           (priv1\<lparr>caps := (caps priv1)
                              \<lparr>max_num_virtqs := of_nat MLX5_VDPA_SW_MAX_VIRTQS_SUPPORTED\<rparr>\<rparr>)
                           (DRV_LOG DEBUG ''Virtio acceleration not supported by the device'' [] w2))))"

text \<open>The context as \<^verbatim>\<open>rte_zmalloc\<close> returns it, with the opened device stored in it.\<close>

definition zeroed_priv :: "ibv_context \<Rightarrow> vdpa_priv" where
  "zeroed_priv c =
     \<lparr>priv_id = 0, vid = 0, pdn = 0, nr_vring = 0, pd_obj = None, dev_attached = 0, ctx = c,
      caps = \<lparr>dump_mkey = 0, max_num_virtqs = 0, virtio_net_features = 0, virtio_protocol_features = 0\<rparr>,
      virtq = replicate (MLX5_VDPA_SW_MAX_VIRTQS_SUPPORTED * 2) \<lparr>rqn = 0, rq_obj = None\<rparr>,
      relay = \<lparr>epfd = 0, tid = 0, notify_base = None\<rparr>\<rparr>"

text \<open>
  The probe returns 0 and the registry with the new context at its tail
  (\<^verbatim>\<open>TAILQ_INSERT_TAIL\<close>), or a negative \<^verbatim>\<open>rte_errno\<close> and the registry as it was.
\<close>

definition mlx5_vdpa_pci_probe ::
  "'h platform \<Rightarrow> 64 word \<Rightarrow> vdpa_priv list \<Rightarrow> 'h world \<Rightarrow> int \<times> vdpa_priv list \<times> 'h world" where
  "mlx5_vdpa_pci_probe P cap_virtq priv_list w =
     (case open_ib_device P (hw w) of
        (Inl e, h) \<Rightarrow> (- e, priv_list, w\<lparr>hw := h\<rparr>)
      | (Inr c, h) \<Rightarrow>
          (case mlx5_vdpa_query_virtio_caps P cap_virtq (zeroed_priv c) (w\<lparr>hw := h\<rparr>) of
             (r, priv1, w1) \<Rightarrow>
               if r \<noteq> 0
               then (- (if rte_errno P (hw w1) \<noteq> 0 then rte_errno P (hw w1) else EINVAL), priv_list,
                     DRV_LOG DEBUG ''Unable to query Virtio caps'' [] w1)
               else
                 (case rte_vdpa_register_device P (hw w1) of
                    (d, h2) \<Rightarrow>
                      if d < 0
                      then (- (if rte_errno P h2 \<noteq> 0 then rte_errno P h2 else EINVAL), priv_list,
                            DRV_LOG DEBUG ''Unable to regsiter vDPA device'' [] (w1\<lparr>hw := h2\<rparr>))
                      else (0, priv_list @ [priv1\<lparr>priv_id := d\<rparr>], w1\<lparr>hw := h2\<rparr>))))"


subsection \<open>The driver as a whole\<close>




subsection \<open>A scripted platform\<close>

text \<open>
  A concrete machine to run the driver on: DevX objects are numbered from \<open>sim_next\<close>;
  \<open>sim_create\<close>, \<open>sim_destroy\<close> and \<open>sim_reads\<close> script the results of the next
  creations (\<open>False\<close> fails), destroys and reads, which succeed once the script is used
  up; the destroy of a null handle is refused with \<^verbatim>\<open>EINVAL\<close>, and \<open>sim_doorbell\<close> holds
  the values written to the doorbell page. The guest has \<open>nr\<close> rings, \<open>mmap_ok\<close> says
  whether the doorbell page can be mapped, and the accelerator reports the capabilities
  \<open>cap_out\<close>. Vhost device \<open>v\<close> is bound to the vDPA device of the same number, and
  \<open>sim_devs\<close> is the id the next registration hands out.
\<close>

record sim =
  sim_next :: nat
  sim_devs :: nat
  sim_create :: "bool list"
  sim_destroy :: "int list"
  sim_reads :: "(int \<times> int) list"
  sim_doorbell :: "32 word list"

definition sim_out :: "nat \<Rightarrow> devx_out" where
  "sim_out n =
     \<lparr>out_pd = of_nat n, out_rqn = of_nat n, out_cap_dump_fill_mkey = 1,
      out_general_obj_types = 0, out_max_num_of_virtqs = 0, out_dump_fill_mkey = 0x700\<rparr>"

definition sim_obj_create :: "sim \<Rightarrow> (obj_ptr \<times> devx_out) \<times> sim" where
  "sim_obj_create h =
     (case sim_create h of
        [] \<Rightarrow> ((Some (sim_next h), sim_out (sim_next h)), h\<lparr>sim_next := Suc (sim_next h)\<rparr>)
      | b # bs \<Rightarrow>
          if b then ((Some (sim_next h), sim_out (sim_next h)),
                     h\<lparr>sim_next := Suc (sim_next h), sim_create := bs\<rparr>)
          else ((None, sim_out 0), h\<lparr>sim_create := bs\<rparr>))"

definition sim_obj_destroy :: "sim \<Rightarrow> int \<times> sim" where
  "sim_obj_destroy h =
     (case sim_destroy h of [] \<Rightarrow> (0, h) | r # rs \<Rightarrow> (r, h\<lparr>sim_destroy := rs\<rparr>))"

definition sim_read :: "sim \<Rightarrow> (int \<times> int) \<times> sim" where
  "sim_read h =
     (case sim_reads h of [] \<Rightarrow> ((8, 0), h) | r # rs \<Rightarrow> (r, h\<lparr>sim_reads := rs\<rparr>))"

definition sim_platform :: "16 word \<Rightarrow> bool \<Rightarrow> devx_out \<Rightarrow> sim platform" where
  "sim_platform nr mmap_ok cap_out =
     \<lparr>dv_devx_obj_create = (\<lambda>c inb h. sim_obj_create h),
      dv_devx_obj_destroy = (\<lambda>obj h. if obj = None then (22, h) else sim_obj_destroy h),
      dv_devx_general_cmd = (\<lambda>c inb h. ((0, cap_out), h)),
      rte_vhost_get_vring_num = (\<lambda>v h. nr),
      rte_vhost_get_vhost_vring = (\<lambda>v i h. \<lparr>vring_size = 8, kickfd = of_int (10 + i), callfd = of_int (20 + i)\<rparr>),
      rte_vhost_get_vdpa_device_id = (\<lambda>v h. v),
      rte_vdpa_register_device = (\<lambda>h. (int (sim_devs h), h\<lparr>sim_devs := Suc (sim_devs h)\<rparr>)),
      rte_errno = (\<lambda>h. 0),
      open_ib_device = (\<lambda>h. (Inr \<lparr>cmd_fd = 3\<rparr>, h)),
      sysconf_SC_PAGESIZE = (\<lambda>h. 4096),
      sys_mmap = (\<lambda>len fd off h. (if mmap_ok then Some 65536 else None, h)),
      sys_munmap = (\<lambda>addr len h. h),
      sys_pthread_create = (\<lambda>h. ((0, 1), h)),
      sys_pthread_cancel = (\<lambda>t h. h),
      sys_pthread_join = (\<lambda>t h. h),
      sys_close = (\<lambda>fd h. h),
      sys_epoll_create = (\<lambda>h. (5, h)),
      sys_epoll_ctl_add = (\<lambda>ep fd tag h. ((0, 0), h)),
      sys_epoll_wait = (\<lambda>ep n h. (Inl 9, h)),
      sys_read = (\<lambda>fd h. sim_read h),
      rte_write32 = (\<lambda>val addr h. h\<lparr>sim_doorbell := sim_doorbell h @ [val]\<rparr>)\<rparr>"

definition sim0 :: sim where
  "sim0 = \<lparr>sim_next = 1, sim_devs = 0, sim_create = [], sim_destroy = [], sim_reads = [],
           sim_doorbell = []\<rparr>"

definition world0 :: "sim world" where
  "world0 = \<lparr>hw = sim0, trace = []\<rparr>"

text \<open>
  The context of device 0 as the probe registers it on this platform (\<open>priv_reg\<close>),
  and as a configuration with two rings leaves it once the worker has stored its epoll
  descriptor (\<open>priv_cfg\<close>).
\<close>

definition priv_reg :: vdpa_priv where
  "priv_reg =
     (zeroed_priv \<lparr>cmd_fd = 3\<rparr>)
       \<lparr>caps := \<lparr>dump_mkey = 0x700, max_num_virtqs = 1, virtio_net_features = MLX5_VDPA_FEATURES,
                 virtio_protocol_features = MLX5_VDPA_PROTOCOL_FEATURES\<rparr>\<rparr>"

definition priv_cfg :: vdpa_priv where
  "priv_cfg =
     \<lparr>priv_id = 0, vid = 0, pdn = 1, nr_vring = 2, pd_obj = Some 1, dev_attached = 1,
      ctx = \<lparr>cmd_fd = 3\<rparr>,
      caps = \<lparr>dump_mkey = 0x700, max_num_virtqs = 1, virtio_net_features = MLX5_VDPA_FEATURES,
              virtio_protocol_features = MLX5_VDPA_PROTOCOL_FEATURES\<rparr>,
      virtq = [\<lparr>rqn = 2, rq_obj = Some 2\<rparr>, \<lparr>rqn = 0, rq_obj = None\<rparr>],
      relay = \<lparr>epfd = 5, tid = 1, notify_base = Some 65536\<rparr>\<rparr>"

text \<open>
  The context a configuration with two rings leaves when the creation of the receive
  queue of ring 0 failed (with the worker's descriptor stored): no slot holds an object.
\<close>

definition priv_degraded :: vdpa_priv where
  "priv_degraded = priv_cfg\<lparr>virtq := [\<lparr>rqn = 0, rq_obj = None\<rparr>, \<lparr>rqn = 0, rq_obj = None\<rparr>]\<rparr>"

text \<open>
  The platform with two rings, and what closing device 0 leaves of \<open>priv_cfg\<close>: when
  every destroy succeeds, and when the destroy of the protection domain fails.
\<close>

definition sim2 :: "sim platform" where
  "sim2 = sim_platform 2 True (sim_out 0)"

definition priv_closed :: vdpa_priv where
  "priv_closed =
     priv_cfg\<lparr>pdn := 0, dev_attached := 0,
              virtq := [\<lparr>rqn = 0, rq_obj = Some 2\<rparr>, \<lparr>rqn = 0, rq_obj = None\<rparr>],
              relay := \<lparr>epfd = - 1, tid = 0, notify_base = None\<rparr>\<rparr>"

definition world_closed :: "sim world" where
  "world_closed =
     \<lparr>hw = sim0,
      trace = [PthreadCancel 1, PthreadJoin 1, Close 5, Munmap (Some 65536) 4096,
               DevxObjDestroy (Some 1) 0, DevxObjDestroy (Some 2) 0]\<rparr>"

definition world_pd_busy :: "sim world" where
  "world_pd_busy = \<lparr>hw = sim0\<lparr>sim_destroy := [16]\<rparr>, trace = []\<rparr>"

definition world_close_failed :: "sim world" where
  "world_close_failed =
     \<lparr>hw = sim0,
      trace = [PthreadCancel 1, PthreadJoin 1, Close 5, Munmap (Some 65536) 4096,
               DevxObjDestroy (Some 1) 16, DrvLog ERR ''Error when DEALLOCATING PD'' []]\<rparr>"

text \<open>
  The platform on which the doorbell page cannot be mapped, and the capabilities of an
  accelerator that advertises virtqueue objects (bit \<open>0x2000\<close> of its general object
  types) and a maximum of 8 virtqueues.
\<close>

definition sim_nomap :: "sim platform" where
  "sim_nomap = sim_platform 2 False (sim_out 0)"

definition emu_out :: devx_out where
  "emu_out = (sim_out 0)\<lparr>out_general_obj_types := 0x2000, out_max_num_of_virtqs := 8\<rparr>"

text \<open>
  The platform with four rings, and the world in which the creation of the protection
  domain succeeds and the next creation of a receive queue fails.
\<close>

definition sim4 :: "sim platform" where
  "sim4 = sim_platform 4 True (sim_out 0)"

definition world_rq_fails :: "sim world" where
  "world_rq_fails = \<lparr>hw = sim0\<lparr>sim_create := [True, False]\<rparr>, trace = []\<rparr>"

text \<open>
  The world in which the protection domain and the receive queue of ring 0 are created
  and the creation for ring 2 fails, with what the configuration of device 0 with four
  rings leaves from it; and what a configuration with two rings whose creation for ring
  0 fails leaves of the closed context \<open>priv_closed\<close>.
\<close>

definition world_rq2_fails :: "sim world" where
  "world_rq2_fails = \<lparr>hw = sim0\<lparr>sim_create := [True, True, False]\<rparr>, trace = []\<rparr>"

definition priv_stale :: vdpa_priv where
  "priv_stale = priv_closed\<lparr>pdn := 1, dev_attached := 1,
                  relay := \<lparr>epfd = - 1, tid = 1, notify_base = Some 65536\<rparr>\<rparr>"

definition world_stale :: "sim world" where
  "world_stale =
     \<lparr>hw = sim0\<lparr>sim_next := 2\<rparr>,
      trace = [DevxObjCreate MLX5_CMD_OP_ALLOC_PD (Some 1), VhostGetVring 0 0,
               DevxObjCreate (MLX5_CMD_OP_CREATE_RQ 0 8 1) None,
               DrvLog DEBUG ''Failed to CREATE_RQ through Devx'' [],
               DrvLog ERR ''Create RQ failed for Virtqueue %d'' [0],
               DrvLog INFO ''Contiuing without RQ for Virtqueue %d'' [0],
               DrvLog DEBUG ''Notify offset is 0x% size is %'' [9437184, 4096],
               Mmap 4096 3 9437184 (Some 65536), PthreadCreate 0 1]\<rparr>"

definition priv_partial :: vdpa_priv where
  "priv_partial = priv_cfg\<lparr>nr_vring := 4, relay := \<lparr>epfd = 0, tid = 1, notify_base = Some 65536\<rparr>\<rparr>"

definition world_partial :: "sim world" where
  "world_partial =
     \<lparr>hw = sim0\<lparr>sim_next := 3\<rparr>,
      trace = [DevxObjCreate MLX5_CMD_OP_ALLOC_PD (Some 1), VhostGetVring 0 0,
               DevxObjCreate (MLX5_CMD_OP_CREATE_RQ 0 8 1) (Some 2),
               VhostGetVring 0 2,
               DevxObjCreate (MLX5_CMD_OP_CREATE_RQ 0 8 1) None,
               DrvLog DEBUG ''Failed to CREATE_RQ through Devx'' [],
               DrvLog ERR ''Create RQ failed for Virtqueue %d'' [2],
               DrvLog INFO ''Contiuing without RQ for Virtqueue %d'' [2],
               DrvLog DEBUG ''Notify offset is 0x% size is %'' [9437184, 4096],
               Mmap 4096 3 9437184 (Some 65536), PthreadCreate 0 1]\<rparr>"






subsection \<open>Reading the record of calls\<close>

text \<open>The events recorded after the world \<open>w\<close>, in the record of a later world \<open>w'\<close>.\<close>

definition since :: "'h world \<Rightarrow> 'h world \<Rightarrow> event list" where
  "since w w' = drop (length (trace w)) (trace w')"

text \<open>The DevX objects destroyed, with the code each destroy returned, in call order.\<close>

fun devx_destroys :: "event list \<Rightarrow> (obj_ptr \<times> int) list" where
  "devx_destroys [] = []"
| "devx_destroys (DevxObjDestroy obj r # es) = (obj, r) # devx_destroys es"
| "devx_destroys (e # es) = devx_destroys es"

text \<open>The DevX creations, with the object each returned (\<open>None\<close>: it failed), in call order.\<close>

fun devx_creates :: "event list \<Rightarrow> (devx_in \<times> obj_ptr) list" where
  "devx_creates [] = []"
| "devx_creates (DevxObjCreate c obj # es) = (c, obj) # devx_creates es"
| "devx_creates (e # es) = devx_creates es"


text \<open>The calls \<^verbatim>\<open>mlx5_vdpa_unset_notify_relay\<close> makes for a relay state, for a page size.\<close>

definition relay_stop_events :: "mlx5_vdpa_relay_thread \<Rightarrow> 64 word \<Rightarrow> event list" where
  "relay_stop_events rl page_size =
     (if tid rl \<noteq> 0 then [PthreadCancel (tid rl), PthreadJoin (tid rl)] else []) @
     (if 0 \<le> epfd rl then [Close (epfd rl)] else []) @
     [Munmap (notify_base rl) page_size]"

text \<open>
  The calls of one pass of the loop of \<^verbatim>\<open>mlx5_vdpa_setup_rx\<close> at an even index \<open>m\<close>
  for the vhost device \<open>v\<close>, where the creation command \<open>c\<close> returned \<open>obj\<close>: the ring
  is read, the object is created, and a failure is logged three times.
\<close>

definition rq_events :: "int \<Rightarrow> nat \<times> devx_in \<times> obj_ptr \<Rightarrow> event list" where
  "rq_events v x =
     (case x of (m, c, obj) \<Rightarrow>
        VhostGetVring v (int m) # DevxObjCreate c obj #
        (if obj = None
         then [DrvLog DEBUG ''Failed to CREATE_RQ through Devx'' [],
               DrvLog ERR ''Create RQ failed for Virtqueue %d'' [int m],
               DrvLog INFO ''Contiuing without RQ for Virtqueue %d'' [int m]]
         else []))"

text \<open>The handle of a slot after a creation for it (\<open>None\<close>: no creation) was made.\<close>

definition slot_after :: "(devx_in \<times> obj_ptr) option \<Rightarrow> obj_ptr \<Rightarrow> obj_ptr" where
  "slot_after a old = (case a of Some (c, Some obj) \<Rightarrow> Some obj | _ \<Rightarrow> old)"

text \<open>
  What the loop of \<^verbatim>\<open>mlx5_vdpa_setup_rx\<close> leaves, started at index \<open>i\<close> for \<open>nr\<close>
  rings, when the creations it made returned \<open>res\<close>.
\<close>

definition setup_rx_post ::
  "nat \<Rightarrow> nat \<Rightarrow> vdpa_priv \<Rightarrow> 'h world \<Rightarrow> (devx_in \<times> obj_ptr) list \<Rightarrow> vdpa_priv \<Rightarrow> 'h world \<Rightarrow> bool" where
  "setup_rx_post i nr priv w res priv' w' \<longleftrightarrow>
      length res = length (filter even [i..<nr])
    \<and> trace w' = trace w @ concat (map (rq_events (vid priv)) (zip (filter even [i..<nr]) res))
    \<and> priv' = priv\<lparr>virtq := virtq priv'\<rparr>
    \<and> length (virtq priv') = length (virtq priv)
    \<and> (\<forall>m < length (virtq priv).
          rq_obj (virtq priv' ! m) =
            slot_after (map_of (zip (filter even [i..<nr]) res) m) (rq_obj (virtq priv ! m)))
    \<and> (\<forall>x \<in> set (zip (filter even [i..<nr]) res). snd (snd x) \<noteq> None \<longrightarrow> fst x < length (virtq priv))
    \<and> (\<forall>x \<in> set res. \<exists>sz. fst x = MLX5_CMD_OP_CREATE_RQ SPECIAL_CQ_FOR_VDPA sz (pdn priv))"

text \<open>
  The creations of receive queues that provisioning is to make for the vhost device \<open>v\<close>
  with the protection domain \<open>pd\<close>, one for each index of \<open>ms\<close> in turn, from the
  state \<open>h\<close>: the command carries the size of the ring of that index, and the next
  creation is made whether this one returned an object or not. The result is each
  command with the object it returned.
\<close>

fun rq_creations ::
  "'h platform \<Rightarrow> ibv_context \<Rightarrow> int \<Rightarrow> 32 word \<Rightarrow> nat list \<Rightarrow> 'h \<Rightarrow> (devx_in \<times> obj_ptr) list" where
  "rq_creations P c v pd [] h = []"
| "rq_creations P c v pd (m # ms) h =
     (let cmd = MLX5_CMD_OP_CREATE_RQ SPECIAL_CQ_FOR_VDPA
                  (vring_size (rte_vhost_get_vhost_vring P v (int m) h)) pd
      in case dv_devx_obj_create P c cmd h of
           ((obj, out), h1) \<Rightarrow> (cmd, obj) # rq_creations P c v pd ms h1)"










text \<open>
  What \<^verbatim>\<open>mlx5_vdpa_release_rx\<close> leaves when it stopped at index \<open>j\<close> (the ring count
  when no destroy failed, the failing index otherwise, whose destroy returned \<open>rc\<close>),
  started at index \<open>i\<close>.
\<close>

definition release_rx_post ::
  "nat \<Rightarrow> vdpa_priv \<Rightarrow> 'h world \<Rightarrow> nat \<Rightarrow> int \<Rightarrow> int \<Rightarrow> vdpa_priv \<Rightarrow> 'h world \<Rightarrow> bool" where
  "release_rx_post i priv w j rc r priv' w' \<longleftrightarrow>
      i \<le> j \<and> j \<le> unat (nr_vring priv)
    \<and> trace w' = trace w
         @ map (\<lambda>m. DevxObjDestroy (rq_obj (virtq priv ! m)) 0) (filter even [i..<j])
         @ (if j < unat (nr_vring priv)
            then [DevxObjDestroy (rq_obj (virtq priv ! j)) rc,
                  DrvLog ERR ''Error in destory RQ for Virtqueue %d'' [int j]]
            else [])
    \<and> (j < unat (nr_vring priv) \<longrightarrow> even j \<and> rc \<noteq> 0)
    \<and> r = (if j < unat (nr_vring priv) then - 1 else 0)
    \<and> priv' = priv\<lparr>virtq := virtq priv'\<rparr>
    \<and> length (virtq priv') = length (virtq priv)
    \<and> (\<forall>m < length (virtq priv).
          virtq priv' ! m = (if even m \<and> i \<le> m \<and> m < j then (virtq priv ! m)\<lparr>rqn := 0\<rparr> else virtq priv ! m))"

text \<open>
  What \<^verbatim>\<open>mlx5_vdpa_dev_close\<close> does to the context \<open>priv\<close> of a registered device:
  \<open>evs\<close> are the calls it made, \<open>stop\<close> those of the relay's teardown, \<open>rc\<close> the code
  the destroy of the protection domain returned, \<open>j\<close> and \<open>rc2\<close> the index at which the
  release of the receive queues stopped and the code of the destroy that failed there.
\<close>

definition dev_close_post ::
  "vdpa_priv \<Rightarrow> event list \<Rightarrow> int \<Rightarrow> nat \<Rightarrow> int \<Rightarrow> int \<Rightarrow> vdpa_priv \<Rightarrow> event list \<Rightarrow> bool" where
  "dev_close_post priv stop rc j rc2 r priv' evs \<longleftrightarrow>
     evs = stop @ DevxObjDestroy (pd_obj priv) rc #
       (if rc \<noteq> 0 then [DrvLog ERR ''Error when DEALLOCATING PD'' []]
        else map (\<lambda>m. DevxObjDestroy (rq_obj (virtq priv ! m)) 0) (filter even [0..<j]) @
             (if j < unat (nr_vring priv)
              then [DevxObjDestroy (rq_obj (virtq priv ! j)) rc2,
                    DrvLog ERR ''Error in destory RQ for Virtqueue %d'' [int j],
                    DrvLog ERR ''Error in releasing RX resources'' []]
              else [])) \<and>
     j \<le> unat (nr_vring priv) \<and>
     (j < unat (nr_vring priv) \<longrightarrow> even j \<and> rc2 \<noteq> 0) \<and>
     r = (if rc = 0 \<and> j = unat (nr_vring priv) then 0 else - 1) \<and>
     dev_attached priv' = (if r = 0 then 0 else dev_attached priv) \<and>
     pdn priv' = (if rc = 0 then 0 else pdn priv) \<and>
     relay priv' = \<lparr>epfd = - 1, tid = 0, notify_base = None\<rparr>"

section \<open>Properties\<close>

lemmas sim_eval =
  sim2_def sim_platform_def sim_obj_create_def sim_obj_destroy_def sim_read_def sim_out_def
  sim0_def world0_def priv_cfg_def DRV_LOG_def Let_def
  glue_dv_devx_obj_create_def glue_dv_devx_obj_destroy_def glue_dv_devx_general_cmd_def
  get_vhost_vring_def find_priv_resource_by_did_def

subsection \<open>Notification area and correlation tag\<close>

lemma get_notify_offset_value: "mlx5_vdpa_get_notify_offset qid = 0x900"
  by (simp add: mlx5_vdpa_get_notify_offset_def mlx5_vdpa_set_ext_index_def
      mlx5_vdpa_set_command_def MLX5_IB_MMAP_VIRTIO_NOTIFY_def MLX5_IB_MMAP_CMD_SHIFT_def
      MLX5_IB_CMD_SIZE_def MLX5_IB_MMAP_INDEX_MASK_def)

lemma pow2_dvd_offset: "k < 64 \<Longrightarrow> unat ((2::64 word) ^ k) dvd unat (0x900 * (2::64 word) ^ k)"
proof -
  assume k: "k < 64"
  have d: "(2::nat) ^ k dvd 2 ^ 64" by (rule le_imp_power_dvd) (use k in simp)
  have lt: "(2::nat) ^ k < 2 ^ 64" using k by (rule power_strict_increasing) simp
  have p: "(2::64 word) ^ k = of_nat (2 ^ k)" by simp
  have m: "0x900 * (2::64 word) ^ k = of_nat (0x900 * 2 ^ k)" by simp
  have u1: "unat ((2::64 word) ^ k) = 2 ^ k"
    unfolding p unat_of_nat using lt by simp
  have u2: "unat (0x900 * (2::64 word) ^ k) = (0x900 * 2 ^ k) mod 2 ^ 64"
    unfolding m unat_of_nat by simp
  have "(2::nat) ^ k dvd (0x900 * 2 ^ k) mod 2 ^ 64"
    using d by (simp add: dvd_mod)
  then show ?thesis unfolding u1 u2 .
qed

text \<open>
  C8. \<^verbatim>\<open>mlx5_vdpa_report_notify_area\<close> (the \<^verbatim>\<open>get_notify_area\<close> operation) returns 0
  for every device and every queue index, with the size equal to the host's page size
  and the offset \<open>0x900\<close> pages, whatever the device and the queue index: two calls on
  the same host give the same pair. Its only effect is the message it logs. The offset
  is a multiple of the page size (the product is taken in 64 bits) for every page size
  that is a power of two.
\<close>

theorem notify_area_same_for_every_queue:
  "fst (mlx5_vdpa_report_notify_area page_size v qid w) = (0, 0x900 * page_size, page_size) \<and>
   fst (mlx5_vdpa_report_notify_area page_size v qid w) =
     fst (mlx5_vdpa_report_notify_area page_size v' qid' w') \<and>
   snd (mlx5_vdpa_report_notify_area page_size v qid w) =
     DRV_LOG DEBUG ''Notify offset is 0x% size is %'' [uint (0x900 * page_size), sint page_size] w \<and>
   (k < 64 \<longrightarrow>
      (case fst (mlx5_vdpa_report_notify_area (2 ^ k) v qid w) of
         (r, offset, sz) \<Rightarrow> unat sz dvd unat offset))"
  by (simp add: mlx5_vdpa_report_notify_area_def get_notify_offset_value pow2_dvd_offset Let_def)

theorem notify_area_same_for_every_queue_witness:
  "(12::nat) < 64 \<and>
   fst (mlx5_vdpa_report_notify_area (2 ^ 12) 0 3 world0) = (0, 0x900000, 0x1000) \<and>
   fst (mlx5_vdpa_report_notify_area (2 ^ 12) 0 3 world0) =
     fst (mlx5_vdpa_report_notify_area (2 ^ 12) 1 0 world0) \<and>
   unat (0x1000 :: 64 word) dvd unat (0x900000 :: 64 word)"
  using notify_area_same_for_every_queue[of "2 ^ 12" 0 3 world0 1 0 world0 12]
  by (simp add: mlx5_vdpa_report_notify_area_def get_notify_offset_value)

lemma data_u32_tag: "data_u32 (ev_data_u64 qid fd) = qid"
  unfolding data_u32_def ev_data_u64_def
  by (rule bit_word_eqI) (auto simp add: bit_simps)

lemma data_kickfd_tag: "data_kickfd (ev_data_u64 qid fd) = fd"
  unfolding data_kickfd_def ev_data_u64_def
  by (rule bit_word_eqI) (auto simp add: bit_simps dest: bit_imp_le_length)

text \<open>
  C10. The correlation tag round-trips: for every 32-bit queue index and every 32-bit
  kick descriptor, the low 32 bits of the packed tag are the queue index and its high
  32 bits are the descriptor.
\<close>

theorem correlation_tag_roundtrip:
  "data_u32 (ev_data_u64 qid fd) = qid \<and> data_kickfd (ev_data_u64 qid fd) = fd"
  by (simp add: data_u32_tag data_kickfd_tag)

subsection \<open>Releasing the receive queues\<close>

lemma replicate_two: "replicate 2 x = [x, x]"
  by (simp add: numeral_2_eq_2)

lemmas config_eval =
  sim_eval priv_reg_def zeroed_priv_def mlx5_vdpa_dev_config_def create_pd_def
  mlx5_vdpa_setup_rx_def setup_rx_loop.simps create_rq_def mlx5_vdpa_setup_notify_relay_def
  mlx5_vdpa_report_notify_area_def get_notify_offset_value MLX5_VDPA_SW_MAX_VIRTQS_SUPPORTED_def
  SPECIAL_CQ_FOR_VDPA_def replicate_two

lemma glue_destroy_trace:
  "glue_dv_devx_obj_destroy P obj w = (r, w1) \<Longrightarrow> trace w1 = trace w @ [DevxObjDestroy obj r]"
  by (auto simp: glue_dv_devx_obj_destroy_def split: prod.splits)

lemma release_rx_post_done:
  "i = unat (nr_vring priv) \<Longrightarrow> release_rx_post i priv w i 0 0 priv w"
  by (auto simp add: release_rx_post_def)

lemma release_rx_post_fail:
  assumes "i < unat (nr_vring priv)" "even i" "r1 \<noteq> 0"
    and "trace w1 = trace w @ [DevxObjDestroy (rq_obj (virtq priv ! i)) r1]"
  shows "release_rx_post i priv w i r1 (- 1) priv
           (DRV_LOG ERR ''Error in destory RQ for Virtqueue %d'' [int i] w1)"
  using assms by (auto simp add: release_rx_post_def DRV_LOG_def)

lemma release_rx_post_skip:
  assumes "i < unat (nr_vring priv)" "odd i"
    and "release_rx_post (i + 1) priv w j rc r priv' w'"
  shows "release_rx_post i priv w j rc r priv' w'"
proof -
  have up: "[i..<j] = i # [i + 1..<j]" using assms(3) by (simp add: upt_conv_Cons release_rx_post_def)
  have a: "\<And>m. (even m \<and> i \<le> m \<and> m < j) = (even m \<and> i + 1 \<le> m \<and> m < j)"
    using assms(2) by (metis Suc_eq_plus1 Suc_leI le_neq_implies_less  Suc_leD)
  show ?thesis
    using assms unfolding release_rx_post_def up a by simp
qed

lemma release_rx_post_step:
  assumes lt: "i < unat (nr_vring priv)" and ev: "even i" and inr: "i < length (virtq priv)"
    and t1: "trace w1 = trace w @ [DevxObjDestroy (rq_obj (virtq priv ! i)) 0]"
    and h: "release_rx_post (i + 1) (priv\<lparr>virtq := (virtq priv)[i := (virtq priv ! i)\<lparr>rqn := 0\<rparr>]\<rparr>) w1 j rc r priv' w'"
  shows "release_rx_post i priv w j rc r priv' w'"
proof -
  let ?p2 = "priv\<lparr>virtq := (virtq priv)[i := (virtq priv ! i)\<lparr>rqn := 0\<rparr>]\<rparr>"
  have ij: "i + 1 \<le> j" using h by (simp add: release_rx_post_def)
  have up: "[i..<j] = i # [i + 1..<j]" using ij by (simp add: upt_conv_Cons)
  have m1: "map (\<lambda>m. DevxObjDestroy (rq_obj (virtq ?p2 ! m)) 0) (filter even [i + 1..<j])
          = map (\<lambda>m. DevxObjDestroy (rq_obj (virtq priv ! m)) 0) (filter even [i + 1..<j])"
    by (rule map_cong) auto
  have m2: "rq_obj (virtq ?p2 ! j) = rq_obj (virtq priv ! j)" using ij by simp
  have tr: "trace w' = trace w
         @ map (\<lambda>m. DevxObjDestroy (rq_obj (virtq priv ! m)) 0) (filter even [i..<j])
         @ (if j < unat (nr_vring priv)
            then [DevxObjDestroy (rq_obj (virtq priv ! j)) rc,
                  DrvLog ERR ''Error in destory RQ for Virtqueue %d'' [int j]]
            else [])"
    using h ev unfolding release_rx_post_def up m1 m2 t1 by simp
  have sl: "\<forall>m < length (virtq priv).
      virtq priv' ! m = (if even m \<and> i \<le> m \<and> m < j then (virtq priv ! m)\<lparr>rqn := 0\<rparr> else virtq priv ! m)"
  proof (intro allI impI)
    fix m assume m: "m < length (virtq priv)"
    have "virtq priv' ! m = (if even m \<and> i + 1 \<le> m \<and> m < j then (virtq ?p2 ! m)\<lparr>rqn := 0\<rparr> else virtq ?p2 ! m)"
      using h m by (simp add: release_rx_post_def)
    then show "virtq priv' ! m = (if even m \<and> i \<le> m \<and> m < j then (virtq priv ! m)\<lparr>rqn := 0\<rparr> else virtq priv ! m)"
      using ij ev m by (cases "m = i") auto
  qed
  have "priv' = ?p2\<lparr>virtq := virtq priv'\<rparr>" using h by (simp add: release_rx_post_def)
  then have pp: "priv' = priv\<lparr>virtq := virtq priv'\<rparr>" by simp
  have rest: "i \<le> j" "j \<le> unat (nr_vring priv)" "j < unat (nr_vring priv) \<longrightarrow> even j \<and> rc \<noteq> 0"
    "r = (if j < unat (nr_vring priv) then - 1 else 0)" "length (virtq priv') = length (virtq priv)"
    using h by (simp_all add: release_rx_post_def)
  show ?thesis
    unfolding release_rx_post_def using rest tr sl pp by blast
qed

lemma release_rx_loop_shape:
  assumes "release_rx_loop P i priv w = Inr (r, priv', w')" and "i \<le> unat (nr_vring priv)"
  shows "\<exists>j rc. release_rx_post i priv w j rc r priv' w'"
  using assms
proof (induction P i priv w rule: release_rx_loop.induct)
  case (1 P i priv w)
  let ?N = "unat (nr_vring priv)"
  note res = "1.prems"(1)
  show ?case
  proof (cases "i < ?N")
    case False
    then have e: "i = ?N" using "1.prems" by simp
    have "release_rx_loop P i priv w = Inr (0, priv, w)"
      using False by (subst release_rx_loop.simps) simp
    with release_rx_post_done[OF e] res show ?thesis by auto
  next
    case lt: True
    show ?thesis
    proof (cases "even i")
      case odd: False
      have c: "\<not> (i = 0 \<or> i mod 2 = 0)" using odd by presburger
      have eq: "release_rx_loop P i priv w = release_rx_loop P (i + 1) priv w"
        using lt c by (subst release_rx_loop.simps) simp
      have "i + 1 \<le> ?N" using lt by simp
      from "1.IH"(2)[OF lt c res[unfolded eq] this]
      obtain j rc where "release_rx_post (i + 1) priv w j rc r priv' w'" by blast
      from release_rx_post_skip[OF lt odd this] show ?thesis by blast
    next
      case ev: True
      have c: "i = 0 \<or> i mod 2 = 0" using ev by presburger
      have inr: "i < length (virtq priv)"
      proof (rule ccontr)
        assume "\<not> i < length (virtq priv)"
        then have "release_rx_loop P i priv w = Inl OutOfBounds"
          using lt c by (subst release_rx_loop.simps) simp
        with res show False by simp
      qed
      obtain r1 w1 where d: "glue_dv_devx_obj_destroy P (rq_obj (virtq priv ! i)) w = (r1, w1)"
        by (cases "glue_dv_devx_obj_destroy P (rq_obj (virtq priv ! i)) w")
      note t1 = glue_destroy_trace[OF d]
      show ?thesis
      proof (cases "r1 = 0")
        case False
        have eq: "release_rx_loop P i priv w =
            Inr (- 1, priv, DRV_LOG ERR ''Error in destory RQ for Virtqueue %d'' [int i] w1)"
          using lt c inr d False by (subst release_rx_loop.simps) simp
        from release_rx_post_fail[OF lt ev False t1] eq res show ?thesis by auto
      next
        case ok: True
        let ?p2 = "priv\<lparr>virtq := (virtq priv)[i := (virtq priv ! i)\<lparr>rqn := 0\<rparr>]\<rparr>"
        have eq: "release_rx_loop P i priv w = release_rx_loop P (i + 1) ?p2 w1"
          using lt c inr d ok by (subst release_rx_loop.simps) simp
        have pre: "i + 1 \<le> unat (nr_vring ?p2)"
          using lt by simp
        have nz: "\<not> r1 \<noteq> 0" using ok by simp
        from "1.IH"(1)[OF lt c inr d[symmetric] nz res[unfolded eq] pre]
        obtain j rc where h: "release_rx_post (i + 1) ?p2 w1 j rc r priv' w'"
          by blast
        from t1 ok have t1': "trace w1 = trace w @ [DevxObjDestroy (rq_obj (virtq priv ! i)) 0]" by simp
        from release_rx_post_step[OF lt ev inr t1' h] show ?thesis by blast
      qed
    qed
  qed
qed

lemma release_rx_loop_no_fault:
  assumes "unat (nr_vring priv) \<le> length (virtq priv)"
  shows "\<exists>r priv' w'. release_rx_loop P i priv w = Inr (r, priv', w')"
  using assms
proof (induction P i priv w rule: release_rx_loop.induct)
  case (1 P i priv w)
  show ?case
  proof (cases "i < unat (nr_vring priv)")
    case False
    then show ?thesis by (subst release_rx_loop.simps) simp
  next
    case lt: True
    then have inr: "i < length (virtq priv)" using "1.prems" by simp
    show ?thesis
    proof (cases "i = 0 \<or> i mod 2 = 0")
      case c: False
      from "1.IH"(2)[OF lt c "1.prems"] show ?thesis
        using lt c by (subst release_rx_loop.simps) simp
    next
      case c: True
      obtain r1 w1 where d: "glue_dv_devx_obj_destroy P (rq_obj (virtq priv ! i)) w = (r1, w1)"
        by (cases "glue_dv_devx_obj_destroy P (rq_obj (virtq priv ! i)) w")
      show ?thesis
      proof (cases "r1 = 0")
        case False
        then show ?thesis using lt c inr d by (subst release_rx_loop.simps) simp
      next
        case True
        then have nz: "\<not> r1 \<noteq> 0" by simp
        have pre: "unat (nr_vring (priv\<lparr>virtq := (virtq priv)[i := (virtq priv ! i)\<lparr>rqn := 0\<rparr>]\<rparr>))
            \<le> length (virtq (priv\<lparr>virtq := (virtq priv)[i := (virtq priv ! i)\<lparr>rqn := 0\<rparr>]\<rparr>))"
          using "1.prems" by simp
        from "1.IH"(1)[OF lt c inr d[symmetric] nz pre] show ?thesis
          using lt c inr d True by (subst release_rx_loop.simps) simp
      qed
    qed
  qed
qed

lemma since_append: "trace w' = trace w @ es \<Longrightarrow> since w w' = es"
  by (simp add: since_def)

text \<open>
  C6, as the code has it. \<^verbatim>\<open>mlx5_vdpa_release_rx\<close> does not fault when the ring count
  is within the array. When it returns, there is an index \<open>j\<close> at which it stopped. The
  calls it made are the destroys of the handles of the even slots below \<open>j\<close>, in
  increasing index order, whatever the handle is (the null handle of a slot that was
  never populated, and the handle of an object destroyed before, are passed to the
  destroy like any other), each of which returned 0, followed, when \<open>j\<close> is below the
  ring count, by the destroy of the handle of slot \<open>j\<close>, which failed, and the error
  message: nothing is destroyed after a failed destroy, and the result is -1. When no
  destroy failed, \<open>j\<close> is the ring count, so the destroy was called for every even slot
  below it, and the result is 0. \<^verbatim>\<open>rqn\<close> is 0 in the even slots below \<open>j\<close>, whose
  destroy returned 0, and unchanged in every other slot; the handles are unchanged.
\<close>

theorem release_rx_stops_at_first_failure:
  "(unat (nr_vring priv) \<le> length (virtq priv) \<longrightarrow>
      (\<exists>r priv' w'. mlx5_vdpa_release_rx P priv w = Inr (r, priv', w'))) \<and>
   (mlx5_vdpa_release_rx P priv w = Inr (r, priv', w') \<longrightarrow>
      (\<exists>j rc. j \<le> unat (nr_vring priv) \<and>
         since w w' =
           map (\<lambda>m. DevxObjDestroy (rq_obj (virtq priv ! m)) 0) (filter even [0..<j]) @
           (if j < unat (nr_vring priv)
            then [DevxObjDestroy (rq_obj (virtq priv ! j)) rc,
                  DrvLog ERR ''Error in destory RQ for Virtqueue %d'' [int j]]
            else []) \<and>
         (j < unat (nr_vring priv) \<longrightarrow> even j \<and> rc \<noteq> 0 \<and> r = - 1) \<and>
         (j = unat (nr_vring priv) \<longrightarrow> r = 0) \<and>
         length (virtq priv') = length (virtq priv) \<and>
         (\<forall>m < length (virtq priv).
            rq_obj (virtq priv' ! m) = rq_obj (virtq priv ! m) \<and>
            rqn (virtq priv' ! m) = (if even m \<and> m < j then 0 else rqn (virtq priv ! m)))))"
proof (intro conjI impI)
  assume "unat (nr_vring priv) \<le> length (virtq priv)"
  then show "\<exists>r priv' w'. mlx5_vdpa_release_rx P priv w = Inr (r, priv', w')"
    unfolding mlx5_vdpa_release_rx_def by (rule release_rx_loop_no_fault)
next
  assume "mlx5_vdpa_release_rx P priv w = Inr (r, priv', w')"
  then have "release_rx_loop P 0 priv w = Inr (r, priv', w')"
    by (simp add: mlx5_vdpa_release_rx_def)
  from release_rx_loop_shape[OF this]
  obtain j rc where p: "release_rx_post 0 priv w j rc r priv' w'" by auto
  have s: "since w w' =
           map (\<lambda>m. DevxObjDestroy (rq_obj (virtq priv ! m)) 0) (filter even [0..<j]) @
           (if j < unat (nr_vring priv)
            then [DevxObjDestroy (rq_obj (virtq priv ! j)) rc,
                  DrvLog ERR ''Error in destory RQ for Virtqueue %d'' [int j]]
            else [])"
    using p by (intro since_append) (simp add: release_rx_post_def)
  have sl: "\<forall>m < length (virtq priv).
            rq_obj (virtq priv' ! m) = rq_obj (virtq priv ! m) \<and>
            rqn (virtq priv' ! m) = (if even m \<and> m < j then 0 else rqn (virtq priv ! m))"
    using p by (simp add: release_rx_post_def)
  have rest: "j \<le> unat (nr_vring priv)" "j < unat (nr_vring priv) \<longrightarrow> even j \<and> rc \<noteq> 0 \<and> r = - 1"
    "j = unat (nr_vring priv) \<longrightarrow> r = 0" "length (virtq priv') = length (virtq priv)"
    using p by (simp_all add: release_rx_post_def)
  show "\<exists>j rc. j \<le> unat (nr_vring priv) \<and>
         since w w' =
           map (\<lambda>m. DevxObjDestroy (rq_obj (virtq priv ! m)) 0) (filter even [0..<j]) @
           (if j < unat (nr_vring priv)
            then [DevxObjDestroy (rq_obj (virtq priv ! j)) rc,
                  DrvLog ERR ''Error in destory RQ for Virtqueue %d'' [int j]]
            else []) \<and>
         (j < unat (nr_vring priv) \<longrightarrow> even j \<and> rc \<noteq> 0 \<and> r = - 1) \<and>
         (j = unat (nr_vring priv) \<longrightarrow> r = 0) \<and>
         length (virtq priv') = length (virtq priv) \<and>
         (\<forall>m < length (virtq priv).
            rq_obj (virtq priv' ! m) = rq_obj (virtq priv ! m) \<and>
            rqn (virtq priv' ! m) = (if even m \<and> m < j then 0 else rqn (virtq priv ! m)))"
    using s sl rest by blast
qed

lemmas release_eval =
  mlx5_vdpa_release_rx_def release_rx_loop.simps sim_eval glue_dv_devx_obj_destroy_def DRV_LOG_def

text \<open>
  The theorem at the configured context, twice. When the destroy succeeds, slot 0 is
  destroyed, the result is 0 and \<^verbatim>\<open>rqn\<close> of slot 0 goes from 2 to 0. When the destroy
  returns 16, nothing else is called, the result is -1 and the context is unchanged.
\<close>

theorem release_rx_stops_at_first_failure_witness:
  "unat (nr_vring priv_cfg) \<le> length (virtq priv_cfg) \<and>
   mlx5_vdpa_release_rx sim2 priv_cfg world0 =
     Inr (0, priv_cfg\<lparr>virtq := [\<lparr>rqn = 0, rq_obj = Some 2\<rparr>, \<lparr>rqn = 0, rq_obj = None\<rparr>]\<rparr>,
       \<lparr>hw = sim0, trace = [DevxObjDestroy (Some 2) 0]\<rparr>) \<and>
   rqn (virtq priv_cfg ! 0) = 2 \<and>
   (\<exists>j rc. j \<le> unat (nr_vring priv_cfg) \<and>
      [DevxObjDestroy (Some 2) 0] =
        map (\<lambda>m. DevxObjDestroy (rq_obj (virtq priv_cfg ! m)) 0) (filter even [0..<j]) @
        (if j < unat (nr_vring priv_cfg)
         then [DevxObjDestroy (rq_obj (virtq priv_cfg ! j)) rc,
               DrvLog ERR ''Error in destory RQ for Virtqueue %d'' [int j]]
         else [])) \<and>
   mlx5_vdpa_release_rx sim2 priv_cfg world_pd_busy =
     Inr (- 1, priv_cfg,
       \<lparr>hw = sim0,
        trace = [DevxObjDestroy (Some 2) 16,
                 DrvLog ERR ''Error in destory RQ for Virtqueue %d'' [0]]\<rparr>) \<and>
   (\<exists>j rc. j \<le> unat (nr_vring priv_cfg) \<and>
      [DevxObjDestroy (Some 2) 16, DrvLog ERR ''Error in destory RQ for Virtqueue %d'' [0]] =
        map (\<lambda>m. DevxObjDestroy (rq_obj (virtq priv_cfg ! m)) 0) (filter even [0..<j]) @
        (if j < unat (nr_vring priv_cfg)
         then [DevxObjDestroy (rq_obj (virtq priv_cfg ! j)) rc,
               DrvLog ERR ''Error in destory RQ for Virtqueue %d'' [int j]]
         else []))"
proof -
  let ?p1 = "priv_cfg\<lparr>virtq := [\<lparr>rqn = 0, rq_obj = Some 2\<rparr>, \<lparr>rqn = 0, rq_obj = None\<rparr>]\<rparr>"
  let ?w1 = "\<lparr>hw = sim0, trace = [DevxObjDestroy (Some 2) 0]\<rparr> :: sim world"
  let ?w2 = "\<lparr>hw = sim0,
        trace = [DevxObjDestroy (Some 2) 16,
                 DrvLog ERR ''Error in destory RQ for Virtqueue %d'' [0]]\<rparr> :: sim world"
  have a: "unat (nr_vring priv_cfg) \<le> length (virtq priv_cfg)"
    by (simp add: priv_cfg_def)
  have n: "rqn (virtq priv_cfg ! 0) = 2" by (simp add: priv_cfg_def)
  have b1: "mlx5_vdpa_release_rx sim2 priv_cfg world0 = Inr (0, ?p1, ?w1)"
    by (simp add: release_eval priv_cfg_def world0_def)
  have b2: "mlx5_vdpa_release_rx sim2 priv_cfg world_pd_busy = Inr (- 1, priv_cfg, ?w2)"
    by (simp add: release_eval priv_cfg_def world_pd_busy_def)
  have c1: "since world0 ?w1 = [DevxObjDestroy (Some 2) 0]"
    by (simp add: since_def world0_def)
  have c2: "since world_pd_busy ?w2 =
      [DevxObjDestroy (Some 2) 16, DrvLog ERR ''Error in destory RQ for Virtqueue %d'' [0]]"
    by (simp add: since_def world_pd_busy_def)
  from release_rx_stops_at_first_failure[of priv_cfg sim2 world0 0 ?p1 ?w1] b1
  have t1: "\<exists>j rc. j \<le> unat (nr_vring priv_cfg) \<and>
      [DevxObjDestroy (Some 2) 0] =
        map (\<lambda>m. DevxObjDestroy (rq_obj (virtq priv_cfg ! m)) 0) (filter even [0..<j]) @
        (if j < unat (nr_vring priv_cfg)
         then [DevxObjDestroy (rq_obj (virtq priv_cfg ! j)) rc,
               DrvLog ERR ''Error in destory RQ for Virtqueue %d'' [int j]]
         else [])"
    unfolding c1 by blast
  from release_rx_stops_at_first_failure[of priv_cfg sim2 world_pd_busy "- 1" priv_cfg ?w2] b2
  have t2: "\<exists>j rc. j \<le> unat (nr_vring priv_cfg) \<and>
      [DevxObjDestroy (Some 2) 16, DrvLog ERR ''Error in destory RQ for Virtqueue %d'' [0]] =
        map (\<lambda>m. DevxObjDestroy (rq_obj (virtq priv_cfg ! m)) 0) (filter even [0..<j]) @
        (if j < unat (nr_vring priv_cfg)
         then [DevxObjDestroy (rq_obj (virtq priv_cfg ! j)) rc,
               DrvLog ERR ''Error in destory RQ for Virtqueue %d'' [int j]]
         else [])"
    unfolding c2 by blast
  from a n b1 b2 t1 t2 show ?thesis by blast
qed

text \<open>
  The claim C6 speaks of the populated slots; the loop does not look at them. After a
  configuration whose creation for ring 0 failed, no slot is populated, and yet the
  release calls the destroy, with the null handle, and returns -1 when the platform
  refuses it. And on the context a close has left, whose slot 0 still holds the handle
  of the destroyed object 2, a second release destroys that handle again.
\<close>

theorem release_rx_destroys_empty_slot_counterexample:
  "mlx5_vdpa_dev_config sim2 0 [priv_reg] world_rq_fails =
     Inr (0, [priv_degraded\<lparr>relay := \<lparr>epfd = 0, tid = 1, notify_base = Some 65536\<rparr>\<rparr>],
       \<lparr>hw = sim0\<lparr>sim_next := 2\<rparr>,
        trace = [DevxObjCreate MLX5_CMD_OP_ALLOC_PD (Some 1), VhostGetVring 0 0,
                 DevxObjCreate (MLX5_CMD_OP_CREATE_RQ 0 8 1) None,
                 DrvLog DEBUG ''Failed to CREATE_RQ through Devx'' [],
                 DrvLog ERR ''Create RQ failed for Virtqueue %d'' [0],
                 DrvLog INFO ''Contiuing without RQ for Virtqueue %d'' [0],
                 DrvLog DEBUG ''Notify offset is 0x% size is %'' [9437184, 4096],
                 Mmap 4096 3 9437184 (Some 65536), PthreadCreate 0 1]\<rparr>) \<and>
   length (virtq priv_degraded) = 2 \<and>
   rq_obj (virtq priv_degraded ! 0) = None \<and> rq_obj (virtq priv_degraded ! 1) = None \<and>
   mlx5_vdpa_release_rx sim2 priv_degraded world0 =
     Inr (- 1, priv_degraded,
       \<lparr>hw = sim0,
        trace = [DevxObjDestroy None 22,
                 DrvLog ERR ''Error in destory RQ for Virtqueue %d'' [0]]\<rparr>) \<and>
   rq_obj (virtq priv_closed ! 0) = Some 2 \<and>
   devx_destroys (trace world_closed) = [(Some 1, 0), (Some 2, 0)] \<and>
   mlx5_vdpa_release_rx sim2 priv_closed world_closed =
     Inr (0, priv_closed,
       world_closed\<lparr>trace := trace world_closed @ [DevxObjDestroy (Some 2) 0]\<rparr>)"
  by (simp add: config_eval release_eval priv_degraded_def priv_cfg_def priv_closed_def
      world_rq_fails_def world0_def world_closed_def)

subsection \<open>The notification relay\<close>










subsection \<open>Closing a device\<close>

lemma find_from_Some:
  "find_from n ps d = Some k \<Longrightarrow> n \<le> k \<and> k - n < length ps \<and> priv_id (ps ! (k - n)) = d"
proof (induction ps arbitrary: n)
  case Nil
  then show ?case by simp
next
  case (Cons p ps)
  show ?case
  proof (cases "d = priv_id p")
    case True
    with Cons.prems show ?thesis by simp
  next
    case False
    with Cons.prems have "find_from (Suc n) ps d = Some k" by simp
    from Cons.IH[OF this] show ?thesis by (auto simp: Suc_diff_le)
  qed
qed

lemma find_priv_Some:
  "find_priv_resource_by_did l d = Some k \<Longrightarrow> k < length l \<and> priv_id (l ! k) = d"
  using find_from_Some[of 0 l d k] by (simp add: find_priv_resource_by_did_def)

lemma unset_notify_relay_shape:
  "\<exists>w1. mlx5_vdpa_unset_notify_relay P priv w =
          (0, priv\<lparr>relay := \<lparr>epfd = - 1, tid = 0, notify_base = None\<rparr>\<rparr>, w1) \<and>
        trace w1 = trace w @ relay_stop_events (relay priv) (sysconf_SC_PAGESIZE P (hw w))"
  by (simp add: mlx5_vdpa_unset_notify_relay_def relay_stop_events_def Let_def)

lemma devx_destroys_append: "devx_destroys (xs @ ys) = devx_destroys xs @ devx_destroys ys"
  by (induction xs rule: devx_destroys.induct) simp_all

lemma devx_destroys_relay_stop: "devx_destroys (relay_stop_events rl ps) = []"
  by (simp add: relay_stop_events_def devx_destroys_append)

lemma devx_destroys_map:
  "devx_destroys (map (\<lambda>m. DevxObjDestroy (f m) 0) ms) = map (\<lambda>m. (f m, 0)) ms"
  by (induction ms) simp_all

lemma dev_close_shape:
  assumes f: "find_priv_resource_by_did l (rte_vhost_get_vdpa_device_id P v (hw w)) = Some k"
    and res: "mlx5_vdpa_dev_close P v l w = Inr (r, l', w')"
  shows "\<exists>rc j rc2 priv'. l' = l[k := priv'] \<and>
     dev_close_post (l ! k) (relay_stop_events (relay (l ! k)) (sysconf_SC_PAGESIZE P (hw w)))
        rc j rc2 r priv' (since w w')"
proof -
  let ?priv = "l ! k"
  let ?stop = "relay_stop_events (relay ?priv) (sysconf_SC_PAGESIZE P (hw w))"
  let ?p1 = "?priv\<lparr>relay := \<lparr>epfd = - 1, tid = 0, notify_base = None\<rparr>\<rparr>"
  obtain w1 where u: "mlx5_vdpa_unset_notify_relay P ?priv w = (0, ?p1, w1)"
    and t1: "trace w1 = trace w @ ?stop"
    using unset_notify_relay_shape by blast
  obtain rc w2 where d: "glue_dv_devx_obj_destroy P (pd_obj ?p1) w1 = (rc, w2)"
    by (cases "glue_dv_devx_obj_destroy P (pd_obj ?p1) w1")
  have t2: "trace w2 = trace w @ ?stop @ [DevxObjDestroy (pd_obj ?priv) rc]"
    using glue_destroy_trace[OF d] t1 by simp
  show ?thesis
  proof (cases "rc = 0")
    case False
    have "mlx5_vdpa_dev_close P v l w =
        Inr (- 1, l[k := ?p1], DRV_LOG ERR ''Error when DEALLOCATING PD'' [] w2)"
      using f u d False by (simp add: mlx5_vdpa_dev_close_def)
    with res have e: "r = - 1" "l' = l[k := ?p1]" "w' = DRV_LOG ERR ''Error when DEALLOCATING PD'' [] w2"
      by auto
    have s: "since w w' = ?stop @ [DevxObjDestroy (pd_obj ?priv) rc, DrvLog ERR ''Error when DEALLOCATING PD'' []]"
      by (rule since_append) (simp add: e DRV_LOG_def t2)
    have "dev_close_post ?priv ?stop rc 0 1 r ?p1 (since w w')"
      using False e(1) by (simp add: dev_close_post_def s)
    with e(2) show ?thesis by blast
  next
    case True
    let ?p2 = "?p1\<lparr>pdn := 0\<rparr>"
    obtain x where x: "mlx5_vdpa_release_rx P ?p2 w2 = x" by simp
    have c: "mlx5_vdpa_dev_close P v l w =
       (case x of Inl f \<Rightarrow> Inl f
        | Inr (r3, priv3, w3) \<Rightarrow>
            if r3 \<noteq> 0
            then Inr (- 1, l[k := priv3], DRV_LOG ERR ''Error in releasing RX resources'' [] w3)
            else Inr (0, l[k := priv3\<lparr>dev_attached := 0\<rparr>], w3))"
      using f u d True x by (simp add: mlx5_vdpa_dev_close_def)
    from c res obtain r3 priv3 w3 where x3: "x = Inr (r3, priv3, w3)"
      by (cases x) auto
    from x x3 have "release_rx_loop P 0 ?p2 w2 = Inr (r3, priv3, w3)"
      by (simp add: mlx5_vdpa_release_rx_def)
    from release_rx_loop_shape[OF this]
    obtain j rc2 where p: "release_rx_post 0 ?p2 w2 j rc2 r3 priv3 w3" by auto
    have t3: "trace w3 = trace w @ ?stop @ DevxObjDestroy (pd_obj ?priv) rc #
         map (\<lambda>m. DevxObjDestroy (rq_obj (virtq ?priv ! m)) 0) (filter even [0..<j]) @
         (if j < unat (nr_vring ?priv)
          then [DevxObjDestroy (rq_obj (virtq ?priv ! j)) rc2,
                DrvLog ERR ''Error in destory RQ for Virtqueue %d'' [int j]]
          else [])"
      using p t2 by (simp add: release_rx_post_def)
    have p3: "priv3 = ?p2\<lparr>virtq := virtq priv3\<rparr>" using p by (simp add: release_rx_post_def)
    have f3: "dev_attached priv3 = dev_attached ?priv" "pdn priv3 = 0"
      "relay priv3 = \<lparr>epfd = - 1, tid = 0, notify_base = None\<rparr>"
      by (subst p3, simp)+
    have jj: "j \<le> unat (nr_vring ?priv)" "j < unat (nr_vring ?priv) \<longrightarrow> even j \<and> rc2 \<noteq> 0"
      "r3 = (if j < unat (nr_vring ?priv) then - 1 else 0)"
      using p by (simp_all add: release_rx_post_def)
    show ?thesis
    proof (cases "j < unat (nr_vring ?priv)")
      case lt: True
      then have r3: "r3 \<noteq> 0" using jj by simp
      from c res x3 r3 have e: "r = - 1" "l' = l[k := priv3]"
        "w' = DRV_LOG ERR ''Error in releasing RX resources'' [] w3" by auto
      have s: "since w w' = ?stop @ DevxObjDestroy (pd_obj ?priv) rc #
         map (\<lambda>m. DevxObjDestroy (rq_obj (virtq ?priv ! m)) 0) (filter even [0..<j]) @
           [DevxObjDestroy (rq_obj (virtq ?priv ! j)) rc2,
            DrvLog ERR ''Error in destory RQ for Virtqueue %d'' [int j],
            DrvLog ERR ''Error in releasing RX resources'' []]"
        by (rule since_append) (simp add: e DRV_LOG_def t3 lt)
      have "dev_close_post ?priv ?stop rc j rc2 r priv3 (since w w')"
        unfolding dev_close_post_def s using True lt jj e(1) f3 by simp
      with e(2) show ?thesis by blast
    next
      case ge: False
      then have r3: "r3 = 0" and jN: "j = unat (nr_vring ?priv)" using jj by simp_all
      from c res x3 r3 have e: "r = 0" "l' = l[k := priv3\<lparr>dev_attached := 0\<rparr>]" "w' = w3" by auto
      have s: "since w w' = ?stop @ DevxObjDestroy (pd_obj ?priv) rc #
         map (\<lambda>m. DevxObjDestroy (rq_obj (virtq ?priv ! m)) 0) (filter even [0..<j])"
        by (rule since_append) (simp add: e t3 ge)
      have "dev_close_post ?priv ?stop rc j rc2 r (priv3\<lparr>dev_attached := 0\<rparr>) (since w w')"
        unfolding dev_close_post_def s using True ge jN e(1) f3 by simp
      with e(2) show ?thesis by blast
    qed
  qed
qed

lemma snd_zero_before_last:
  "\<forall>x \<in> set zs. snd x = (0::int) \<Longrightarrow> Suc i < length (zs @ [y]) \<Longrightarrow> snd ((zs @ [y]) ! i) = 0"
  by (simp add: nth_append)

lemma snd_zero_all:
  "\<forall>x \<in> set zs. snd x = (0::int) \<Longrightarrow> i < length zs \<Longrightarrow> snd (zs ! i) = 0"
  by simp

text \<open>
  C1, as the code has it. In \<^verbatim>\<open>mlx5_vdpa_dev_close\<close> on a registered device the first
  DevX object destroyed is the protection domain of the context. The objects of the
  receive queues are destroyed after it, and only when its destroy returned 0: they are
  those of the even slots below the index \<open>j\<close> at which \<^verbatim>\<open>mlx5_vdpa_release_rx\<close>
  stopped, in index order, and the one of slot \<open>j\<close> when the release failed there.
\<close>

theorem dev_close_destroys_pd_first:
  assumes "find_priv_resource_by_did l (rte_vhost_get_vdpa_device_id P v (hw w)) = Some k"
    and "mlx5_vdpa_dev_close P v l w = Inr (r, l', w')"
  shows "\<exists>rc j rc2. j \<le> unat (nr_vring (l ! k)) \<and>
     devx_destroys (since w w') =
       (pd_obj (l ! k), rc) #
       (if rc \<noteq> 0 then []
        else map (\<lambda>m. (rq_obj (virtq (l ! k) ! m), 0)) (filter even [0..<j]) @
             (if j < unat (nr_vring (l ! k)) then [(rq_obj (virtq (l ! k) ! j), rc2)] else []))"
proof -
  from dev_close_shape[OF assms]
  obtain rc j rc2 priv' where
    p: "dev_close_post (l ! k) (relay_stop_events (relay (l ! k)) (sysconf_SC_PAGESIZE P (hw w)))
          rc j rc2 r priv' (since w w')"
    by blast
  have "j \<le> unat (nr_vring (l ! k))" using p by (simp add: dev_close_post_def)
  moreover have "devx_destroys (since w w') =
       (pd_obj (l ! k), rc) #
       (if rc \<noteq> 0 then []
        else map (\<lambda>m. (rq_obj (virtq (l ! k) ! m), 0)) (filter even [0..<j]) @
             (if j < unat (nr_vring (l ! k)) then [(rq_obj (virtq (l ! k) ! j), rc2)] else []))"
    using p unfolding dev_close_post_def
    by (simp add: devx_destroys_append devx_destroys_relay_stop devx_destroys_map)
  ultimately show ?thesis by blast
qed

text \<open>
  C4, as the code has it. \<^verbatim>\<open>mlx5_vdpa_dev_close\<close> on a registered device always tears
  the relay down first, and then stops at the first step that fails: it returns 0 exactly
  when every destroy it called returned 0 and -1 otherwise; no destroy is called after a
  destroy that failed (a failed destroy is the last one); when it returns -1 the last
  thing it did was to log an error; and the attachment flag is cleared when it returns
  0 and left as it was when it returns -1.
\<close>

theorem dev_close_stops_at_first_failure:
  assumes "find_priv_resource_by_did l (rte_vhost_get_vdpa_device_id P v (hw w)) = Some k"
    and "mlx5_vdpa_dev_close P v l w = Inr (r, l', w')"
  shows "(\<exists>rest. since w w' = relay_stop_events (relay (l ! k)) (sysconf_SC_PAGESIZE P (hw w)) @ rest) \<and>
     (r = 0 \<or> r = - 1) \<and>
     (r = 0 \<longleftrightarrow> (\<forall>x \<in> set (devx_destroys (since w w')). snd x = 0)) \<and>
     (\<forall>i. Suc i < length (devx_destroys (since w w')) \<longrightarrow> snd (devx_destroys (since w w') ! i) = 0) \<and>
     (r = - 1 \<longrightarrow> (\<exists>msg. last (since w w') = DrvLog ERR msg [])) \<and>
     dev_attached (l' ! k) = (if r = 0 then 0 else dev_attached (l ! k))"
proof -
  let ?priv = "l ! k"
  let ?N = "unat (nr_vring ?priv)"
  from dev_close_shape[OF assms]
  obtain rc j rc2 priv' where l': "l' = l[k := priv']" and
    p: "dev_close_post ?priv (relay_stop_events (relay ?priv) (sysconf_SC_PAGESIZE P (hw w)))
          rc j rc2 r priv' (since w w')"
    by blast
  have k: "k < length l" using find_priv_Some[OF assms(1)] by simp
  have at: "dev_attached (l' ! k) = (if r = 0 then 0 else dev_attached ?priv)"
    using p k l' by (simp add: dev_close_post_def)
  have r: "r = (if rc = 0 \<and> j = ?N then 0 else - 1)" using p by (simp add: dev_close_post_def)
  have jj: "j \<le> ?N" "j < ?N \<longrightarrow> rc2 \<noteq> 0" using p by (simp_all add: dev_close_post_def)
  let ?zs = "(pd_obj ?priv, 0) # map (\<lambda>m. (rq_obj (virtq ?priv ! m), 0::int)) (filter even [0..<j])"
  have z: "\<forall>x \<in> set ?zs. snd x = 0" by auto
  have ds: "devx_destroys (since w w') =
       (if rc \<noteq> 0 then [] @ [(pd_obj ?priv, rc)]
        else if j < ?N then ?zs @ [(rq_obj (virtq ?priv ! j), rc2)] else ?zs)"
    using p unfolding dev_close_post_def
    by (simp add: devx_destroys_append devx_destroys_relay_stop devx_destroys_map)
  have c1: "\<exists>rest. since w w' = relay_stop_events (relay ?priv) (sysconf_SC_PAGESIZE P (hw w)) @ rest"
    using p unfolding dev_close_post_def by blast
  have c2: "r = 0 \<or> r = - 1" using r by simp
  have c3: "r = 0 \<longleftrightarrow> (\<forall>x \<in> set (devx_destroys (since w w')). snd x = 0)"
    using r jj unfolding ds by auto
  have c4: "\<forall>i. Suc i < length (devx_destroys (since w w')) \<longrightarrow> snd (devx_destroys (since w w') ! i) = 0"
  proof (intro allI impI)
    fix i assume i: "Suc i < length (devx_destroys (since w w'))"
    show "snd (devx_destroys (since w w') ! i) = 0"
    proof (cases "rc \<noteq> 0")
      case True
      with i show ?thesis unfolding ds by simp
    next
      case rc0: False
      show ?thesis
      proof (cases "j < ?N")
        case True
        with rc0 i have "Suc i < length (?zs @ [(rq_obj (virtq ?priv ! j), rc2)])" unfolding ds by simp
        from snd_zero_before_last[OF z this] rc0 True show ?thesis unfolding ds by simp
      next
        case False
        with rc0 i have "i < length ?zs" unfolding ds by simp
        from snd_zero_all[OF z this] rc0 False show ?thesis unfolding ds by simp
      qed
    qed
  qed
  have c5: "r = - 1 \<longrightarrow> (\<exists>msg. last (since w w') = DrvLog ERR msg [])"
    using p r unfolding dev_close_post_def by (auto split: if_splits)
  show ?thesis using c1 c2 c3 c4 c5 at by blast
qed

lemma dev_close_cfg_eval:
  "mlx5_vdpa_dev_close sim2 0 [priv_cfg] world0 = Inr (0, [priv_closed], world_closed)"
  by (simp add: sim_eval mlx5_vdpa_dev_close_def mlx5_vdpa_unset_notify_relay_def
      mlx5_vdpa_release_rx_def release_rx_loop.simps priv_closed_def world_closed_def)

lemma dev_close_pd_busy_eval:
  "mlx5_vdpa_dev_close sim2 0 [priv_cfg] world_pd_busy =
     Inr (- 1, [priv_cfg\<lparr>relay := \<lparr>epfd = - 1, tid = 0, notify_base = None\<rparr>\<rparr>], world_close_failed)"
  by (simp add: sim_eval mlx5_vdpa_dev_close_def mlx5_vdpa_unset_notify_relay_def
      mlx5_vdpa_release_rx_def release_rx_loop.simps world_pd_busy_def world_close_failed_def)

lemma find_cfg_eval:
  "find_priv_resource_by_did [priv_cfg] (rte_vhost_get_vdpa_device_id sim2 0 h) = Some 0"
  by (simp add: sim_eval)

text \<open>
  The claim C1 fails where a configured device is closed and every call succeeds: the
  protection domain (object 1) is destroyed before the receive queue of slot 0
  (object 2), which \<^verbatim>\<open>mlx5_vdpa_release_rx\<close> destroys afterwards.
\<close>

theorem dev_close_release_after_pd_counterexample:
  "pd_obj priv_cfg = Some 1 \<and> rq_obj (virtq priv_cfg ! 0) = Some 2 \<and>
   mlx5_vdpa_dev_close sim2 0 [priv_cfg] world0 = Inr (0, [priv_closed], world_closed) \<and>
   devx_destroys (since world0 world_closed) = [(Some 1, 0), (Some 2, 0)]"
  using dev_close_cfg_eval by (simp add: priv_cfg_def since_def world0_def world_closed_def)

theorem dev_close_destroys_pd_first_witness:
  "find_priv_resource_by_did [priv_cfg] (rte_vhost_get_vdpa_device_id sim2 0 (hw world0)) = Some 0 \<and>
   mlx5_vdpa_dev_close sim2 0 [priv_cfg] world0 = Inr (0, [priv_closed], world_closed) \<and>
   (\<exists>rc j rc2. j \<le> unat (nr_vring ([priv_cfg] ! 0)) \<and>
     devx_destroys (since world0 world_closed) =
       (pd_obj ([priv_cfg] ! 0), rc) #
       (if rc \<noteq> 0 then []
        else map (\<lambda>m. (rq_obj (virtq ([priv_cfg] ! 0) ! m), 0)) (filter even [0..<j]) @
             (if j < unat (nr_vring ([priv_cfg] ! 0)) then [(rq_obj (virtq ([priv_cfg] ! 0) ! j), rc2)] else [])))"
  using dev_close_destroys_pd_first[OF find_cfg_eval dev_close_cfg_eval] find_cfg_eval dev_close_cfg_eval
  by blast

text \<open>
  The claim C4 fails where the destroy of the protection domain returns an error (16):
  \<^verbatim>\<open>mlx5_vdpa_dev_close\<close> returns -1 at once, no receive queue is released (the only
  destroy called is the protection domain's) and the attachment flag stays 1.
\<close>

theorem dev_close_best_effort_counterexample:
  "mlx5_vdpa_dev_close sim2 0 [priv_cfg] world_pd_busy =
     Inr (- 1, [priv_cfg\<lparr>relay := \<lparr>epfd = - 1, tid = 0, notify_base = None\<rparr>\<rparr>], world_close_failed) \<and>
   devx_destroys (since world_pd_busy world_close_failed) = [(pd_obj priv_cfg, 16)] \<and>
   rq_obj (virtq priv_cfg ! 0) = Some 2 \<and>
   dev_attached (priv_cfg\<lparr>relay := \<lparr>epfd = - 1, tid = 0, notify_base = None\<rparr>\<rparr>) = 1"
  using dev_close_pd_busy_eval
  by (simp add: priv_cfg_def since_def world_pd_busy_def world_close_failed_def)

theorem dev_close_stops_at_first_failure_witness:
  "find_priv_resource_by_did [priv_cfg] (rte_vhost_get_vdpa_device_id sim2 0 (hw world_pd_busy)) = Some 0 \<and>
   mlx5_vdpa_dev_close sim2 0 [priv_cfg] world_pd_busy =
     Inr (- 1, [priv_cfg\<lparr>relay := \<lparr>epfd = - 1, tid = 0, notify_base = None\<rparr>\<rparr>], world_close_failed) \<and>
   (\<exists>msg. last (since world_pd_busy world_close_failed) = DrvLog ERR msg []) \<and>
   dev_attached ([priv_cfg\<lparr>relay := \<lparr>epfd = - 1, tid = 0, notify_base = None\<rparr>\<rparr>] ! 0) =
     dev_attached ([priv_cfg] ! 0)"
  using dev_close_stops_at_first_failure[OF find_cfg_eval dev_close_pd_busy_eval]
    find_cfg_eval dev_close_pd_busy_eval
  by simp

subsection \<open>Provisioning the receive queues\<close>

lemma create_rq_shape:
  assumes "create_rq P priv sz idx w = Inr (r, priv1, w1)"
  shows "\<exists>obj n. trace w1 = trace w @
            DevxObjCreate (MLX5_CMD_OP_CREATE_RQ SPECIAL_CQ_FOR_VDPA sz (pdn priv)) obj #
            (if obj = None then [DrvLog DEBUG ''Failed to CREATE_RQ through Devx'' []] else []) \<and>
         (obj = None \<longrightarrow> r = - 1 \<and> priv1 = priv) \<and>
         (obj \<noteq> None \<longrightarrow> r = 0 \<and> unat idx < length (virtq priv) \<and>
            priv1 = priv\<lparr>virtq := (virtq priv)[unat idx := \<lparr>rqn = n, rq_obj = obj\<rparr>]\<rparr>)"
  using assms
  by (auto simp: create_rq_def glue_dv_devx_obj_create_def DRV_LOG_def split: prod.splits if_splits)

lemma setup_rx_post_done: "nr \<le> i \<Longrightarrow> setup_rx_post i nr priv w [] priv w"
  by (simp add: setup_rx_post_def slot_after_def)

lemma setup_rx_post_skip:
  assumes "i < nr" "odd i" "setup_rx_post (i + 1) nr priv w res priv' w'"
  shows "setup_rx_post i nr priv w res priv' w'"
proof -
  have up: "[i..<nr] = i # [i + 1..<nr]" using assms(1) by (simp add: upt_conv_Cons)
  show ?thesis using assms(2,3) unfolding setup_rx_post_def up by simp
qed

lemma map_of_evens_above:
  "map_of (zip (filter even [Suc i..<nr]) res) i = None"
proof -
  have "i \<notin> set (filter even [Suc i..<nr])" by simp
  then have "i \<notin> fst ` set (zip (filter even [Suc i..<nr]) res)"
    by (metis (no_types, lifting) imageE set_zip_leftD prod.collapse)
  then show ?thesis by (simp add: map_of_eq_None_iff)
qed

lemma setup_rx_post_step:
  assumes lt: "i < nr" and ev: "even i"
    and c: "c = MLX5_CMD_OP_CREATE_RQ SPECIAL_CQ_FOR_VDPA sz (pdn priv)"
    and t: "trace w3 = trace w @ rq_events (vid priv) (i, c, obj)"
    and p1: "priv1 = (if obj = None then priv
                      else priv\<lparr>virtq := (virtq priv)[i := \<lparr>rqn = n, rq_obj = obj\<rparr>]\<rparr>)"
    and inr: "obj \<noteq> None \<longrightarrow> i < length (virtq priv)"
    and h: "setup_rx_post (i + 1) nr priv1 w3 res priv' w'"
  shows "setup_rx_post i nr priv w ((c, obj) # res) priv' w'"
proof -
  let ?E = "filter even [i + 1..<nr]"
  have up: "filter even [i..<nr] = i # ?E" using lt ev by (simp add: upt_conv_Cons)
  have f1: "vid priv1 = vid priv" "pdn priv1 = pdn priv" "length (virtq priv1) = length (virtq priv)"
    using p1 by auto
  have a1: "length ((c, obj) # res) = length (filter even [i..<nr])"
    using h unfolding up by (simp add: setup_rx_post_def)
  have a2: "trace w' = trace w @ concat (map (rq_events (vid priv)) (zip (filter even [i..<nr]) ((c, obj) # res)))"
    using h t unfolding up by (simp add: setup_rx_post_def f1)
  have "priv' = priv1\<lparr>virtq := virtq priv'\<rparr>" using h by (simp add: setup_rx_post_def)
  then have a3: "priv' = priv\<lparr>virtq := virtq priv'\<rparr>" using p1 by (cases "obj = None") simp_all
  have a4: "length (virtq priv') = length (virtq priv)" using h f1 by (simp add: setup_rx_post_def)
  have a5: "\<forall>m < length (virtq priv).
          rq_obj (virtq priv' ! m) =
            slot_after (map_of (zip (filter even [i..<nr]) ((c, obj) # res)) m) (rq_obj (virtq priv ! m))"
  proof (intro allI impI)
    fix m assume m: "m < length (virtq priv)"
    have e: "rq_obj (virtq priv' ! m) = slot_after (map_of (zip ?E res) m) (rq_obj (virtq priv1 ! m))"
      using h m f1 by (simp add: setup_rx_post_def)
    show "rq_obj (virtq priv' ! m) =
            slot_after (map_of (zip (filter even [i..<nr]) ((c, obj) # res)) m) (rq_obj (virtq priv ! m))"
    proof (cases "m = i")
      case True
      have "rq_obj (virtq priv1 ! i) = slot_after (Some (c, obj)) (rq_obj (virtq priv ! i))"
        using p1 m True by (cases obj) (simp_all add: slot_after_def)
      then show ?thesis using e True unfolding up by (simp add: map_of_evens_above slot_after_def)
    next
      case False
      then have "virtq priv1 ! m = virtq priv ! m" using p1 by (cases "obj = None") simp_all
      then show ?thesis using e False unfolding up by simp
    qed
  qed
  have a6: "\<forall>x \<in> set (zip (filter even [i..<nr]) ((c, obj) # res)). snd (snd x) \<noteq> None \<longrightarrow> fst x < length (virtq priv)"
    using h inr f1 unfolding up by (simp add: setup_rx_post_def)
  have a7: "\<forall>x \<in> set ((c, obj) # res). \<exists>sz. fst x = MLX5_CMD_OP_CREATE_RQ SPECIAL_CQ_FOR_VDPA sz (pdn priv)"
    using h c f1 by (simp add: setup_rx_post_def)
  show ?thesis unfolding setup_rx_post_def using a1 a2 a3 a4 a5 a6 a7 by blast
qed


lemma get_vhost_vring_trace:
  "get_vhost_vring P v i w = (vq, w1) \<Longrightarrow> trace w1 = trace w @ [VhostGetVring v i]"
  by (auto simp: get_vhost_vring_def)

lemma unat_of_nat_16: "i < 65536 \<Longrightarrow> unat (of_nat i :: 16 word) = i"
  by (simp add: unat_of_nat)

lemma setup_rx_loop_shape:
  assumes "setup_rx_loop P i nr priv w = Inr (i', priv', w')" and "i \<le> nr" and "nr < 65536"
  shows "i' = nr \<and> (\<exists>res. setup_rx_post i nr priv w res priv' w')"
  using assms
proof (induction "nr - i" arbitrary: i priv w)
  case 0
  then have e: "i = nr" by simp
  then have "setup_rx_loop P i nr priv w = Inr (i, priv, w)"
    by (subst setup_rx_loop.simps) simp
  with "0.prems"(1) have "i' = i" "priv' = priv" "w' = w" by auto
  with e setup_rx_post_done[of nr i priv w] show ?case by auto
next
  case (Suc n)
  then have lt: "i < nr" by simp
  note res = Suc.prems(1)
  have n: "n = nr - (i + 1)" using Suc.hyps(2) by simp
  have le: "i + 1 \<le> nr" using lt by simp
  show ?case
  proof (cases "even i")
    case odd: False
    have c: "\<not> (i = 0 \<or> i mod 2 = 0)" using odd by presburger
    have eq: "setup_rx_loop P i nr priv w = setup_rx_loop P (i + 1) nr priv w"
      using lt c by (subst setup_rx_loop.simps) simp
    from Suc.hyps(1)[OF n res[unfolded eq] le Suc.prems(3)]
    obtain rs where "i' = nr" "setup_rx_post (i + 1) nr priv w rs priv' w'" by blast
    with setup_rx_post_skip[OF lt odd] show ?thesis by blast
  next
    case ev: True
    have c: "i = 0 \<or> i mod 2 = 0" using ev by presburger
    obtain vq w1 where g: "get_vhost_vring P (vid priv) (int i) w = (vq, w1)"
      by (cases "get_vhost_vring P (vid priv) (int i) w")
    note t1 = get_vhost_vring_trace[OF g]
    have eq1: "setup_rx_loop P i nr priv w =
      (case create_rq P priv (vring_size vq) (of_nat i) w1 of
         Inl f \<Rightarrow> Inl f
       | Inr (r, priv1, w2) \<Rightarrow>
           if r \<noteq> 0 then
             setup_rx_loop P (i + 1) nr priv1
               (DRV_LOG INFO ''Contiuing without RQ for Virtqueue %d'' [int i]
                 (DRV_LOG ERR ''Create RQ failed for Virtqueue %d'' [int i] w2))
           else setup_rx_loop P (i + 1) nr priv1 w2)"
      using lt c g by (subst setup_rx_loop.simps) simp
    from res eq1 obtain r priv1 w2 where
      cr: "create_rq P priv (vring_size vq) (of_nat i) w1 = Inr (r, priv1, w2)"
      by (cases "create_rq P priv (vring_size vq) (of_nat i) w1") auto
    have ui: "unat (of_nat i :: 16 word) = i" using lt Suc.prems(3) by (intro unat_of_nat_16) simp
    let ?c = "MLX5_CMD_OP_CREATE_RQ SPECIAL_CQ_FOR_VDPA (vring_size vq) (pdn priv)"
    from create_rq_shape[OF cr] ui obtain obj m where
      s: "trace w2 = trace w1 @ DevxObjCreate ?c obj #
            (if obj = None then [DrvLog DEBUG ''Failed to CREATE_RQ through Devx'' []] else [])"
         "obj = None \<longrightarrow> r = - 1 \<and> priv1 = priv"
         "obj \<noteq> None \<longrightarrow> r = 0 \<and> i < length (virtq priv) \<and>
            priv1 = priv\<lparr>virtq := (virtq priv)[i := \<lparr>rqn = m, rq_obj = obj\<rparr>]\<rparr>"
      by auto
    let ?w3 = "if r \<noteq> 0 then DRV_LOG INFO ''Contiuing without RQ for Virtqueue %d'' [int i]
                 (DRV_LOG ERR ''Create RQ failed for Virtqueue %d'' [int i] w2) else w2"
    have eq2: "setup_rx_loop P i nr priv w = setup_rx_loop P (i + 1) nr priv1 ?w3"
      using eq1 cr by simp
    have t3: "trace ?w3 = trace w @ rq_events (vid priv) (i, ?c, obj)"
      using s t1 by (cases "obj = None") (simp_all add: rq_events_def DRV_LOG_def)
    have p1: "priv1 = (if obj = None then priv
                      else priv\<lparr>virtq := (virtq priv)[i := \<lparr>rqn = m, rq_obj = obj\<rparr>]\<rparr>)"
      using s by simp
    have inr: "obj \<noteq> None \<longrightarrow> i < length (virtq priv)" using s by simp
    from Suc.hyps(1)[OF n res[unfolded eq2] le Suc.prems(3)]
    obtain rs where h: "i' = nr" "setup_rx_post (i + 1) nr priv1 ?w3 rs priv' w'" by blast
    from setup_rx_post_step[OF lt ev refl t3 p1 inr h(2)] h(1) show ?thesis by blast
  qed
qed

lemma create_rq_no_fault:
  assumes "unat idx < length (virtq priv)"
  shows "\<exists>r priv1 w1. create_rq P priv sz idx w = Inr (r, priv1, w1) \<and>
           length (virtq priv1) = length (virtq priv)"
  using assms by (auto simp: create_rq_def split: prod.splits)

lemma setup_rx_loop_no_fault:
  assumes "nr \<le> length (virtq priv)" and "nr < 65536"
  shows "\<exists>x. setup_rx_loop P i nr priv w = Inr x"
  using assms
proof (induction "nr - i" arbitrary: i priv w)
  case 0
  then show ?case by (subst setup_rx_loop.simps) simp
next
  case (Suc n)
  then have lt: "i < nr" by simp
  have n: "n = nr - (i + 1)" using Suc.hyps(2) by simp
  show ?case
  proof (cases "i = 0 \<or> i mod 2 = 0")
    case False
    have eq: "setup_rx_loop P i nr priv w = setup_rx_loop P (i + 1) nr priv w"
      using lt False by (subst setup_rx_loop.simps) simp
    from Suc.hyps(1)[OF n Suc.prems] show ?thesis unfolding eq .
  next
    case c: True
    obtain vq w1 where g: "get_vhost_vring P (vid priv) (int i) w = (vq, w1)"
      by (cases "get_vhost_vring P (vid priv) (int i) w")
    have ui: "unat (of_nat i :: 16 word) = i" using lt Suc.prems(2) by (intro unat_of_nat_16) simp
    then have "unat (of_nat i :: 16 word) < length (virtq priv)" using lt Suc.prems(1) by simp
    from create_rq_no_fault[OF this] obtain r priv1 w2 where
      cr: "create_rq P priv (vring_size vq) (of_nat i) w1 = Inr (r, priv1, w2)"
      and len: "length (virtq priv1) = length (virtq priv)" by blast
    let ?w3 = "if r \<noteq> 0 then DRV_LOG INFO ''Contiuing without RQ for Virtqueue %d'' [int i]
                 (DRV_LOG ERR ''Create RQ failed for Virtqueue %d'' [int i] w2) else w2"
    have eq: "setup_rx_loop P i nr priv w = setup_rx_loop P (i + 1) nr priv1 ?w3"
      using lt c g cr by (subst setup_rx_loop.simps) simp
    have "nr \<le> length (virtq priv1)" using Suc.prems(1) len by simp
    from Suc.hyps(1)[OF n this Suc.prems(2)] show ?thesis unfolding eq .
  qed
qed

lemma evens_upt: "filter even [0..<N] = map (\<lambda>k. 2 * k) [0..<(N + 1) div 2]"
proof (induction N)
  case 0
  show ?case by simp
next
  case (Suc N)
  show ?case
  proof (cases "even N")
    case True
    then have "(Suc N + 1) div 2 = Suc ((N + 1) div 2)" "2 * ((N + 1) div 2) = N"
      by (auto elim!: evenE)
    with Suc True show ?thesis by simp
  next
    case False
    then have "(Suc N + 1) div 2 = (N + 1) div 2" by (auto elim!: oddE)
    with Suc False show ?thesis by simp
  qed
qed

lemma map_of_evens:
  assumes "length res = length (filter even [0..<N])"
  shows "map_of (zip (filter even [0..<N]) res) m =
           (if even m \<and> m < N then Some (res ! (m div 2)) else None)"
proof (cases "even m \<and> m < N")
  case True
  let ?E = "filter even [0..<N]"
  have l: "length ?E = (N + 1) div 2" by (simp add: evens_upt)
  have k: "m div 2 < length ?E" using True unfolding l by (auto elim!: evenE)
  have "?E ! (m div 2) = 2 * (m div 2)" using k unfolding evens_upt by simp
  then have e: "?E ! (m div 2) = m" using True by simp
  have d: "distinct ?E" by simp
  from map_of_zip_nth[OF assms[symmetric] d] k assms
  have "map_of (zip ?E res) (?E ! (m div 2)) = Some (res ! (m div 2))" by simp
  then show ?thesis using True e by simp
next
  case False
  then have "m \<notin> set (filter even [0..<N])" by auto
  then have "map_of (zip (filter even [0..<N]) res) m = None"
    using assms by (simp add: map_of_zip_is_None)
  then show ?thesis using False by simp
qed

lemma create_pd_shape:
  assumes "create_pd P priv w = (r, priv1, w1)"
  shows "\<exists>pd n. trace w1 = trace w @ DevxObjCreate MLX5_CMD_OP_ALLOC_PD pd #
            (if pd = None then [DrvLog ERR ''PD allocation failure'' []] else []) \<and>
         hw w1 = snd (dv_devx_obj_create P (ctx priv) MLX5_CMD_OP_ALLOC_PD (hw w)) \<and>
         (pd = None \<longrightarrow> r = - 1 \<and> priv1 = priv) \<and>
         (pd \<noteq> None \<longrightarrow> r = 0 \<and> priv1 = priv\<lparr>pdn := n, pd_obj := pd\<rparr>)"
  using assms
  by (auto simp: create_pd_def glue_dv_devx_obj_create_def DRV_LOG_def split: prod.splits if_splits)

lemma devx_creates_append: "devx_creates (xs @ ys) = devx_creates xs @ devx_creates ys"
  by (induction xs rule: devx_creates.induct) simp_all

lemma setup_notify_relay_shape:
  assumes "mlx5_vdpa_setup_notify_relay P priv w = (r, priv1, w1)"
  shows "\<exists>tl. trace w1 = trace w @ tl \<and> devx_creates tl = [] \<and>
           virtq priv1 = virtq priv \<and> nr_vring priv1 = nr_vring priv"
  using assms
  by (auto simp: mlx5_vdpa_setup_notify_relay_def mlx5_vdpa_report_notify_area_def DRV_LOG_def Let_def
      split: prod.splits if_splits)

lemma setup_rx_shape:
  assumes "mlx5_vdpa_setup_rx P priv w = Inr (r, priv', w')"
  shows "r = 0 \<and> nr_vring priv' = rte_vhost_get_vring_num P (vid priv) (hw w) \<and>
     (\<exists>res p2. priv' = p2\<lparr>nr_vring := rte_vhost_get_vring_num P (vid priv) (hw w)\<rparr> \<and>
        setup_rx_post 0 (unat (rte_vhost_get_vring_num P (vid priv) (hw w))) priv w res p2 w')"
proof -
  let ?nr = "unat (rte_vhost_get_vring_num P (vid priv) (hw w))"
  have b: "?nr < 65536" using unsigned_less[of "rte_vhost_get_vring_num P (vid priv) (hw w)", where 'a = nat] by simp
  from assms obtain i p2 where l: "setup_rx_loop P 0 ?nr priv w = Inr (i, p2, w')"
    and e: "r = 0" "priv' = p2\<lparr>nr_vring := of_nat i\<rparr>"
    by (auto simp: mlx5_vdpa_setup_rx_def Let_def split: sum.splits)
  from setup_rx_loop_shape[OF l _ b] obtain res where
    i: "i = ?nr" and p: "setup_rx_post 0 ?nr priv w res p2 w'" by auto
  have "(of_nat i :: 16 word) = rte_vhost_get_vring_num P (vid priv) (hw w)" using i by simp
  with e p show ?thesis by auto
qed

lemma rq_creations_length: "length (rq_creations P c v pd ms h) = length ms"
  by (induction ms arbitrary: h) (auto simp: Let_def split: prod.splits)

lemma rq_creations_cmds:
  "x \<in> set (rq_creations P c v pd ms h) \<Longrightarrow> \<exists>sz. fst x = MLX5_CMD_OP_CREATE_RQ SPECIAL_CQ_FOR_VDPA sz pd"
  by (induction ms arbitrary: h) (auto simp: Let_def split: prod.splits)

lemma create_rq_run:
  assumes "create_rq P priv sz idx w = Inr (r, priv1, w1)"
  shows "\<exists>es. trace w1 = trace w @ es \<and>
     devx_creates es =
       [(MLX5_CMD_OP_CREATE_RQ SPECIAL_CQ_FOR_VDPA sz (pdn priv),
         fst (fst (dv_devx_obj_create P (ctx priv)
                    (MLX5_CMD_OP_CREATE_RQ SPECIAL_CQ_FOR_VDPA sz (pdn priv)) (hw w))))] \<and>
     hw w1 = snd (dv_devx_obj_create P (ctx priv)
                    (MLX5_CMD_OP_CREATE_RQ SPECIAL_CQ_FOR_VDPA sz (pdn priv)) (hw w)) \<and>
     ctx priv1 = ctx priv \<and> vid priv1 = vid priv \<and> pdn priv1 = pdn priv"
  using assms
  by (auto simp: create_rq_def glue_dv_devx_obj_create_def DRV_LOG_def split: prod.splits if_splits)

lemma setup_rx_loop_creations:
  assumes "setup_rx_loop P i nr priv w = Inr (i', priv', w')" and "i \<le> nr"
  shows "\<exists>es. trace w' = trace w @ es \<and>
     devx_creates es = rq_creations P (ctx priv) (vid priv) (pdn priv) (filter even [i..<nr]) (hw w)"
  using assms
proof (induction "nr - i" arbitrary: i priv w)
  case 0
  then have e: "i = nr" by simp
  then have "setup_rx_loop P i nr priv w = Inr (i, priv, w)"
    by (subst setup_rx_loop.simps) simp
  with "0.prems"(1) have "w' = w" by auto
  with e show ?case by simp
next
  case (Suc n)
  then have lt: "i < nr" by simp
  note res = Suc.prems(1)
  have n: "n = nr - (i + 1)" using Suc.hyps(2) by simp
  have le: "i + 1 \<le> nr" using lt by simp
  show ?case
  proof (cases "even i")
    case odd: False
    have c: "\<not> (i = 0 \<or> i mod 2 = 0)" using odd by presburger
    have eq: "setup_rx_loop P i nr priv w = setup_rx_loop P (i + 1) nr priv w"
      using lt c by (subst setup_rx_loop.simps) simp
    have up: "filter even [i..<nr] = filter even [i + 1..<nr]"
      using lt odd by (simp add: upt_conv_Cons)
    from Suc.hyps(1)[OF n res[unfolded eq] le] show ?thesis unfolding up .
  next
    case ev: True
    have c: "i = 0 \<or> i mod 2 = 0" using ev by presburger
    have up: "filter even [i..<nr] = i # filter even [i + 1..<nr]"
      using lt ev by (simp add: upt_conv_Cons)
    let ?vq = "rte_vhost_get_vhost_vring P (vid priv) (int i) (hw w)"
    let ?w1 = "w\<lparr>trace := trace w @ [VhostGetVring (vid priv) (int i)]\<rparr>"
    have g: "get_vhost_vring P (vid priv) (int i) w = (?vq, ?w1)"
      by (simp add: get_vhost_vring_def)
    have eq1: "setup_rx_loop P i nr priv w =
      (case create_rq P priv (vring_size ?vq) (of_nat i) ?w1 of
         Inl f \<Rightarrow> Inl f
       | Inr (r, priv1, w2) \<Rightarrow>
           if r \<noteq> 0 then
             setup_rx_loop P (i + 1) nr priv1
               (DRV_LOG INFO ''Contiuing without RQ for Virtqueue %d'' [int i]
                 (DRV_LOG ERR ''Create RQ failed for Virtqueue %d'' [int i] w2))
           else setup_rx_loop P (i + 1) nr priv1 w2)"
      using lt c g by (subst setup_rx_loop.simps) simp
    from res eq1 obtain r priv1 w2 where
      cr: "create_rq P priv (vring_size ?vq) (of_nat i) ?w1 = Inr (r, priv1, w2)"
      by (cases "create_rq P priv (vring_size ?vq) (of_nat i) ?w1") auto
    let ?c = "MLX5_CMD_OP_CREATE_RQ SPECIAL_CQ_FOR_VDPA (vring_size ?vq) (pdn priv)"
    from create_rq_run[OF cr] obtain es1 where
      s: "trace w2 = trace ?w1 @ es1"
         "devx_creates es1 = [(?c, fst (fst (dv_devx_obj_create P (ctx priv) ?c (hw w))))]"
         "hw w2 = snd (dv_devx_obj_create P (ctx priv) ?c (hw w))"
         "ctx priv1 = ctx priv" "vid priv1 = vid priv" "pdn priv1 = pdn priv"
      by auto
    let ?w3 = "if r \<noteq> 0 then DRV_LOG INFO ''Contiuing without RQ for Virtqueue %d'' [int i]
                 (DRV_LOG ERR ''Create RQ failed for Virtqueue %d'' [int i] w2) else w2"
    have eq2: "setup_rx_loop P i nr priv w = setup_rx_loop P (i + 1) nr priv1 ?w3"
      using eq1 cr by simp
    obtain lg where t3: "trace ?w3 = trace w2 @ lg" "devx_creates lg = []" and h3: "hw ?w3 = hw w2"
      by (cases "r \<noteq> 0") (simp_all add: DRV_LOG_def)
    from Suc.hyps(1)[OF n res[unfolded eq2] le] obtain es' where
      h: "trace w' = trace ?w3 @ es'"
         "devx_creates es' =
            rq_creations P (ctx priv1) (vid priv1) (pdn priv1) (filter even [i + 1..<nr]) (hw ?w3)"
      by blast
    have tr: "trace w' = trace w @ (VhostGetVring (vid priv) (int i) # es1 @ lg @ es')"
      using h(1) t3(1) s(1) by simp
    have dc: "devx_creates (VhostGetVring (vid priv) (int i) # es1 @ lg @ es') =
        rq_creations P (ctx priv) (vid priv) (pdn priv) (filter even [i..<nr]) (hw w)"
      unfolding up using h(2) s t3(2) h3
      by (simp add: devx_creates_append Let_def split: prod.splits)
    from tr dc show ?thesis by blast
  qed
qed

lemma devx_creates_rq_events:
  "length res = length E \<Longrightarrow> devx_creates (concat (map (rq_events v) (zip E res))) = res"
proof (induction E arbitrary: res)
  case Nil
  then show ?case by simp
next
  case (Cons m E)
  then obtain x res' where r: "res = x # res'" by (cases res) auto
  obtain c obj where x: "x = (c, obj)" by (cases x)
  from Cons r x show ?case by (simp add: rq_events_def devx_creates_append)
qed

subsection \<open>Configuring a device and negotiating capabilities\<close>

lemma setup_rx_no_fault:
  assumes "unat (rte_vhost_get_vring_num P (vid priv) (hw w)) \<le> length (virtq priv)"
  shows "\<exists>priv' w'. mlx5_vdpa_setup_rx P priv w = Inr (0, priv', w')"
proof -
  let ?nr = "unat (rte_vhost_get_vring_num P (vid priv) (hw w))"
  have b: "?nr < 65536"
    using unsigned_less[of "rte_vhost_get_vring_num P (vid priv) (hw w)", where 'a = nat] by simp
  from setup_rx_loop_no_fault[OF assms b] obtain x where "setup_rx_loop P 0 ?nr priv w = Inr x"
    by blast
  then show ?thesis by (cases x) (auto simp: mlx5_vdpa_setup_rx_def Let_def)
qed

lemma dev_config_no_fault:
  assumes f: "find_priv_resource_by_did l (rte_vhost_get_vdpa_device_id P v (hw w)) = Some k"
    and cap: "unat (rte_vhost_get_vring_num P v
                 (snd (dv_devx_obj_create P (ctx (l ! k)) MLX5_CMD_OP_ALLOC_PD (hw w))))
               \<le> length (virtq (l ! k))"
  shows "\<exists>r l' w'. mlx5_vdpa_dev_config P v l w = Inr (r, l', w')"
proof -
  let ?p0 = "(l ! k)\<lparr>vid := v\<rparr>"
  obtain r1 priv1 w1 where cp: "create_pd P ?p0 w = (r1, priv1, w1)"
    by (cases "create_pd P ?p0 w")
  show ?thesis
  proof (cases "r1 = 0")
    case False
    then show ?thesis using f cp by (simp add: mlx5_vdpa_dev_config_def)
  next
    case True
    from create_pd_shape[OF cp] have v1: "vid priv1 = v" "virtq priv1 = virtq (l ! k)"
      and h1: "hw w1 = snd (dv_devx_obj_create P (ctx (l ! k)) MLX5_CMD_OP_ALLOC_PD (hw w))" by auto
    have "unat (rte_vhost_get_vring_num P (vid priv1) (hw w1)) \<le> length (virtq priv1)"
      using cap v1 h1 by simp
    from setup_rx_no_fault[OF this] obtain priv2 w2 where
      sr: "mlx5_vdpa_setup_rx P priv1 w1 = Inr (0, priv2, w2)" by blast
    show ?thesis using f cp True sr
      by (simp add: mlx5_vdpa_dev_config_def split: prod.splits)
  qed
qed

lemma create_pd_run:
  assumes "create_pd P priv w = (r, priv1, w1)"
    and "dv_devx_obj_create P (ctx priv) MLX5_CMD_OP_ALLOC_PD (hw w) = ((pd, out), h1)"
  shows "trace w1 = trace w @ DevxObjCreate MLX5_CMD_OP_ALLOC_PD pd #
            (if pd = None then [DrvLog ERR ''PD allocation failure'' []] else []) \<and>
         hw w1 = h1 \<and>
         (pd = None \<longrightarrow> r = - 1 \<and> priv1 = priv) \<and>
         (pd \<noteq> None \<longrightarrow> r = 0 \<and> priv1 = priv\<lparr>pdn := out_pd out, pd_obj := pd\<rparr>)"
  using assms
  by (auto simp: create_pd_def glue_dv_devx_obj_create_def DRV_LOG_def split: prod.splits if_splits)

lemma dev_config_run:
  assumes f: "find_priv_resource_by_did l (rte_vhost_get_vdpa_device_id P v (hw w)) = Some k"
    and cpd: "dv_devx_obj_create P (ctx (l ! k)) MLX5_CMD_OP_ALLOC_PD (hw w) = ((pd, out), h1)"
    and N: "N = unat (rte_vhost_get_vring_num P v h1)"
    and rqs: "rqs = rq_creations P (ctx (l ! k)) v (out_pd out) (filter even [0..<N]) h1"
    and res: "mlx5_vdpa_dev_config P v l w = Inr (r, l', w')"
  shows "(pd = None \<longrightarrow>
            r = - 1 \<and>
            since w w' = [DevxObjCreate MLX5_CMD_OP_ALLOC_PD None,
                          DrvLog ERR ''PD allocation failure'' [],
                          DrvLog ERR ''Error allocating PD'' []] \<and>
            virtq (l' ! k) = virtq (l ! k))"
    and "(pd \<noteq> None \<longrightarrow>
            r = 0 \<and>
            nr_vring (l' ! k) = rte_vhost_get_vring_num P v h1 \<and>
            pdn (l' ! k) = out_pd out \<and>
            (\<exists>tl. since w w' = DevxObjCreate MLX5_CMD_OP_ALLOC_PD pd #
                     concat (map (rq_events v) (zip (filter even [0..<N]) rqs)) @ tl \<and>
                   devx_creates tl = []) \<and>
            devx_creates (since w w') = (MLX5_CMD_OP_ALLOC_PD, pd) # rqs \<and>
            length (virtq (l' ! k)) = length (virtq (l ! k)) \<and>
            (\<forall>m < length (virtq (l ! k)).
               rq_obj (virtq (l' ! k) ! m) =
                 (if even m \<and> m < N \<and> snd (rqs ! (m div 2)) \<noteq> None
                  then snd (rqs ! (m div 2)) else rq_obj (virtq (l ! k) ! m))))"
proof -
  let ?p0 = "(l ! k)\<lparr>vid := v\<rparr>"
  have k: "k < length l" using find_priv_Some[OF f] by simp
  obtain r1 priv1 w1 where cp: "create_pd P ?p0 w = (r1, priv1, w1)"
    by (cases "create_pd P ?p0 w")
  have cpd': "dv_devx_obj_create P (ctx ?p0) MLX5_CMD_OP_ALLOC_PD (hw w) = ((pd, out), h1)"
    using cpd by simp
  from create_pd_run[OF cp cpd'] have
    t1: "trace w1 = trace w @ DevxObjCreate MLX5_CMD_OP_ALLOC_PD pd #
            (if pd = None then [DrvLog ERR ''PD allocation failure'' []] else [])"
    and h1: "hw w1 = h1"
    and none: "pd = None \<longrightarrow> r1 = - 1 \<and> priv1 = ?p0"
    and some: "pd \<noteq> None \<longrightarrow> r1 = 0 \<and> priv1 = ?p0\<lparr>pdn := out_pd out, pd_obj := pd\<rparr>"
    by auto
  show "(pd = None \<longrightarrow>
            r = - 1 \<and>
            since w w' = [DevxObjCreate MLX5_CMD_OP_ALLOC_PD None,
                          DrvLog ERR ''PD allocation failure'' [],
                          DrvLog ERR ''Error allocating PD'' []] \<and>
            virtq (l' ! k) = virtq (l ! k))"
  proof
    assume True: "pd = None"
    then have "r1 \<noteq> 0" "priv1 = ?p0" using none by auto
    with f cp res have e: "r = - 1" "l' = l[k := ?p0]" "w' = DRV_LOG ERR ''Error allocating PD'' [] w1"
      by (auto simp: mlx5_vdpa_dev_config_def)
    have s: "since w w' = [DevxObjCreate MLX5_CMD_OP_ALLOC_PD None,
          DrvLog ERR ''PD allocation failure'' [], DrvLog ERR ''Error allocating PD'' []]"
      by (rule since_append) (simp add: e t1 True DRV_LOG_def)
    have "virtq (l' ! k) = virtq (l ! k)" using e k by simp
    with s e(1) show "r = - 1 \<and>
            since w w' = [DevxObjCreate MLX5_CMD_OP_ALLOC_PD None,
                          DrvLog ERR ''PD allocation failure'' [],
                          DrvLog ERR ''Error allocating PD'' []] \<and>
            virtq (l' ! k) = virtq (l ! k)" by simp
  qed
  show "(pd \<noteq> None \<longrightarrow>
            r = 0 \<and>
            nr_vring (l' ! k) = rte_vhost_get_vring_num P v h1 \<and>
            pdn (l' ! k) = out_pd out \<and>
            (\<exists>tl. since w w' = DevxObjCreate MLX5_CMD_OP_ALLOC_PD pd #
                     concat (map (rq_events v) (zip (filter even [0..<N]) rqs)) @ tl \<and>
                   devx_creates tl = []) \<and>
            devx_creates (since w w') = (MLX5_CMD_OP_ALLOC_PD, pd) # rqs \<and>
            length (virtq (l' ! k)) = length (virtq (l ! k)) \<and>
            (\<forall>m < length (virtq (l ! k)).
               rq_obj (virtq (l' ! k) ! m) =
                 (if even m \<and> m < N \<and> snd (rqs ! (m div 2)) \<noteq> None
                  then snd (rqs ! (m div 2)) else rq_obj (virtq (l ! k) ! m))))"
  proof
    assume False: "pd \<noteq> None"
    then have r1: "r1 = 0" and p1: "priv1 = ?p0\<lparr>pdn := out_pd out, pd_obj := pd\<rparr>" using some by auto
    have v1: "vid priv1 = v" "virtq priv1 = virtq (l ! k)" "ctx priv1 = ctx (l ! k)"
      "pdn priv1 = out_pd out" using p1 by simp_all
    from f cp r1 res obtain r2 priv2 w2 where
      sr: "mlx5_vdpa_setup_rx P priv1 w1 = Inr (r2, priv2, w2)"
      by (cases "mlx5_vdpa_setup_rx P priv1 w1") (auto simp: mlx5_vdpa_dev_config_def)
    let ?nv = "rte_vhost_get_vring_num P v h1"
    from setup_rx_shape[OF sr] v1 h1 obtain res0 p2 where
      r2: "r2 = 0" and nv: "nr_vring priv2 = ?nv" and p2: "priv2 = p2\<lparr>nr_vring := ?nv\<rparr>"
      and post: "setup_rx_post 0 N priv1 w1 res0 p2 w2"
      unfolding N by auto
    let ?E = "filter even [0..<N]"
    have len: "length res0 = length ?E" using post by (simp add: setup_rx_post_def)
    have t2: "trace w2 = trace w1 @ concat (map (rq_events v) (zip ?E res0))"
      using post v1 by (simp add: setup_rx_post_def)
    from sr obtain i' p2' where
      lp: "setup_rx_loop P 0 N priv1 w1 = Inr (i', p2', w2)"
      unfolding N by (auto simp: mlx5_vdpa_setup_rx_def Let_def v1 h1 split: sum.splits)
    from setup_rx_loop_creations[OF lp] obtain es where
      es: "trace w2 = trace w1 @ es"
          "devx_creates es = rq_creations P (ctx priv1) (vid priv1) (pdn priv1) ?E (hw w1)"
      by auto
    from es(1) t2 have "es = concat (map (rq_events v) (zip ?E res0))" by simp
    with es(2) devx_creates_rq_events[OF len, of v] have req: "res0 = rqs"
      unfolding rqs v1 h1 by simp
    obtain r3 priv3 w3 where nr: "mlx5_vdpa_setup_notify_relay P priv2 w2 = (r3, priv3, w3)"
      by (cases "mlx5_vdpa_setup_notify_relay P priv2 w2")
    from setup_notify_relay_shape[OF nr] obtain tl where
      t3: "trace w3 = trace w2 @ tl" and tl: "devx_creates tl = []"
      and v3: "virtq priv3 = virtq priv2" "nr_vring priv3 = nr_vring priv2"
      by blast
    have pd3: "pdn priv3 = pdn priv2"
      using nr by (auto simp: mlx5_vdpa_setup_notify_relay_def mlx5_vdpa_report_notify_area_def
          DRV_LOG_def Let_def split: prod.splits if_splits)
    have "p2 = priv1\<lparr>virtq := virtq p2\<rparr>" using post by (simp add: setup_rx_post_def)
    then have "pdn p2 = pdn priv1"
      by (metis vdpa_priv.select_convs(3) vdpa_priv.surjective vdpa_priv.update_convs(9))
    then have pd2: "pdn priv2 = out_pd out" using p2 v1 by simp
    from f cp r1 sr r2 nr res have e: "r = 0" "l' = l[k := priv3\<lparr>dev_attached := 1\<rparr>]" "w' = w3"
      by (auto simp: mlx5_vdpa_dev_config_def)
    have Nv: "nr_vring (l' ! k) = ?nv" using e k v3 nv by simp
    have pdk: "pdn (l' ! k) = out_pd out" using e k pd3 pd2 by simp
    have vq: "virtq (l' ! k) = virtq p2" using e k v3 p2 by simp
    have s: "since w w' = DevxObjCreate MLX5_CMD_OP_ALLOC_PD pd #
        concat (map (rq_events v) (zip ?E rqs)) @ tl"
      by (rule since_append) (simp add: e t3 t2 t1 False req)
    have dc: "devx_creates (since w w') = (MLX5_CMD_OP_ALLOC_PD, pd) # rqs"
      unfolding s using devx_creates_rq_events[OF len, of v] tl req
      by (simp add: devx_creates_append)
    have lq: "length (virtq (l' ! k)) = length (virtq (l ! k))"
      using post v1 vq by (simp add: setup_rx_post_def)
    have sl: "\<forall>m < length (virtq (l ! k)).
           rq_obj (virtq (l' ! k) ! m) =
             (if even m \<and> m < N \<and> snd (rqs ! (m div 2)) \<noteq> None
              then snd (rqs ! (m div 2)) else rq_obj (virtq (l ! k) ! m))"
    proof (intro allI impI)
      fix m assume "m < length (virtq (l ! k))"
      then have m: "m < length (virtq priv1)" using v1 by simp
      have a: "rq_obj (virtq p2 ! m) = slot_after (map_of (zip ?E res0) m) (rq_obj (virtq priv1 ! m))"
        using post m by (simp add: setup_rx_post_def)
      show "rq_obj (virtq (l' ! k) ! m) =
             (if even m \<and> m < N \<and> snd (rqs ! (m div 2)) \<noteq> None
              then snd (rqs ! (m div 2)) else rq_obj (virtq (l ! k) ! m))"
        unfolding vq a map_of_evens[OF len] v1 req[symmetric]
        by (cases "res0 ! (m div 2)") (auto simp add: slot_after_def split: option.splits)
    qed
    from e(1) Nv pdk s tl dc lq sl show "r = 0 \<and>
            nr_vring (l' ! k) = rte_vhost_get_vring_num P v h1 \<and>
            pdn (l' ! k) = out_pd out \<and>
            (\<exists>tl. since w w' = DevxObjCreate MLX5_CMD_OP_ALLOC_PD pd #
                     concat (map (rq_events v) (zip (filter even [0..<N]) rqs)) @ tl \<and>
                   devx_creates tl = []) \<and>
            devx_creates (since w w') = (MLX5_CMD_OP_ALLOC_PD, pd) # rqs \<and>
            length (virtq (l' ! k)) = length (virtq (l ! k)) \<and>
            (\<forall>m < length (virtq (l ! k)).
               rq_obj (virtq (l' ! k) ! m) =
                 (if even m \<and> m < N \<and> snd (rqs ! (m div 2)) \<noteq> None
                  then snd (rqs ! (m div 2)) else rq_obj (virtq (l ! k) ! m)))"
      by blast
  qed
qed


lemma probe_eval:
  "mlx5_vdpa_pci_probe sim2 cap_virtq [] \<lparr>hw = sim0, trace = []\<rparr> =
     (0, [priv_reg],
      \<lparr>hw = sim0\<lparr>sim_devs := 1\<rparr>,
       trace = [DevxGeneralCmd (MLX5_CMD_OP_QUERY_HCA_CAP MLX5_HCA_CAP_GENERAL) 0,
                DevxGeneralCmd MLX5_CMD_OP_QUERY_SPECIAL_CONTEXTS 0,
                DrvLog DEBUG ''Virtio acceleration not supported by the device'' [],
                DrvLog DEBUG ''Virtio Caps:'' [],
                DrvLog DEBUG ''dump_mkey=0x%x '' [1792],
                DrvLog DEBUG ''max_num_virtqs=0x%x '' [1],
                DrvLog DEBUG ''features_bits=0x%'' [uint MLX5_VDPA_FEATURES]]\<rparr>)"
  by (simp add: sim_eval priv_reg_def zeroed_priv_def mlx5_vdpa_query_virtio_caps_def caps_tail_def
      MLX5_VDPA_SW_MAX_VIRTQS_SUPPORTED_def mlx5_vdpa_pci_probe_def replicate_two)

lemma dev_config_reg_eval:
  "mlx5_vdpa_dev_config sim2 0 [priv_reg] world0 =
     Inr (0, [priv_cfg\<lparr>relay := \<lparr>epfd = 0, tid = 1, notify_base = Some 65536\<rparr>\<rparr>],
       \<lparr>hw = sim0\<lparr>sim_next := 3\<rparr>,
        trace = [DevxObjCreate MLX5_CMD_OP_ALLOC_PD (Some 1), VhostGetVring 0 0,
                 DevxObjCreate (MLX5_CMD_OP_CREATE_RQ 0 8 1) (Some 2),
                 DrvLog DEBUG ''Notify offset is 0x% size is %'' [9437184, 4096],
                 Mmap 4096 3 9437184 (Some 65536), PthreadCreate 0 1]\<rparr>)"
  by (simp add: config_eval)

text \<open>
  C5, as the code has it. For a registered device, whatever its context holds,
  \<^verbatim>\<open>mlx5_vdpa_dev_config\<close> first makes the one allocation of the protection domain,
  which returns \<open>pd\<close>; \<open>N\<close> is the guest's ring count read after it, and \<open>rqs\<close> are the
  creations of receive queues for the even indices below \<open>N\<close> (\<open>rq_creations\<close>), all of
  them commands \<^verbatim>\<open>CREATE_RQ\<close> for that protection domain. The configuration does not
  fault when \<open>N\<close> is within the array \<^verbatim>\<open>virtq\<close>. When it returns: if the allocation
  failed, the calls are the allocation and the two messages, nothing else is created,
  the result is -1 and the slots are untouched. If it succeeded, the result is 0
  whatever the creations returned, \<^verbatim>\<open>nr_vring\<close> is \<open>N\<close>, the calls that follow the
  allocation are, for each even index below \<open>N\<close> in increasing order, the read of the
  ring, the creation and, when it failed, the three messages of the failure
  (\<open>rq_events\<close>), and the DevX objects created by the whole call are the protection
  domain and \<open>rqs\<close>, no other. The slot of an even index below \<open>N\<close> whose creation
  succeeded holds the object created, and every other slot holds what it held before;
  so when the slots were empty before, a slot is populated exactly when its index is
  even, below \<open>N\<close> and its creation succeeded.
\<close>

theorem dev_config_provisions_even_rings:
  assumes "find_priv_resource_by_did l (rte_vhost_get_vdpa_device_id P v (hw w)) = Some k"
    and "dv_devx_obj_create P (ctx (l ! k)) MLX5_CMD_OP_ALLOC_PD (hw w) = ((pd, out), h1)"
    and "N = unat (rte_vhost_get_vring_num P v h1)"
    and "rqs = rq_creations P (ctx (l ! k)) v (out_pd out) (filter even [0..<N]) h1"
  shows
    "(N \<le> length (virtq (l ! k)) \<longrightarrow>
        (\<exists>r l' w'. mlx5_vdpa_dev_config P v l w = Inr (r, l', w'))) \<and>
     (mlx5_vdpa_dev_config P v l w = Inr (r, l', w') \<longrightarrow>
        (pd = None \<longrightarrow>
           r = - 1 \<and>
           since w w' = [DevxObjCreate MLX5_CMD_OP_ALLOC_PD None,
                         DrvLog ERR ''PD allocation failure'' [],
                         DrvLog ERR ''Error allocating PD'' []] \<and>
           virtq (l' ! k) = virtq (l ! k)) \<and>
        (pd \<noteq> None \<longrightarrow>
           r = 0 \<and>
           nr_vring (l' ! k) = rte_vhost_get_vring_num P v h1 \<and>
           pdn (l' ! k) = out_pd out \<and>
           (\<exists>tl. since w w' = DevxObjCreate MLX5_CMD_OP_ALLOC_PD pd #
                    concat (map (rq_events v) (zip (filter even [0..<N]) rqs)) @ tl \<and>
                  devx_creates tl = []) \<and>
           devx_creates (since w w') = (MLX5_CMD_OP_ALLOC_PD, pd) # rqs \<and>
           length (virtq (l' ! k)) = length (virtq (l ! k)) \<and>
           (\<forall>m < length (virtq (l ! k)).
              rq_obj (virtq (l' ! k) ! m) =
                (if even m \<and> m < N \<and> snd (rqs ! (m div 2)) \<noteq> None
                 then snd (rqs ! (m div 2)) else rq_obj (virtq (l ! k) ! m))) \<and>
           ((\<forall>m < length (virtq (l ! k)). rq_obj (virtq (l ! k) ! m) = None) \<longrightarrow>
              (\<forall>m < length (virtq (l ! k)).
                 rq_obj (virtq (l' ! k) ! m) =
                   (if even m \<and> m < N then snd (rqs ! (m div 2)) else None))))) \<and>
     length rqs = length (filter even [0..<N]) \<and>
     (\<forall>x \<in> set rqs. \<exists>sz. fst x = MLX5_CMD_OP_CREATE_RQ SPECIAL_CQ_FOR_VDPA sz (out_pd out))"
proof -
  have p1: "\<exists>r l' w'. mlx5_vdpa_dev_config P v l w = Inr (r, l', w')"
    if "N \<le> length (virtq (l ! k))"
  proof -
    from assms(2) have "snd (dv_devx_obj_create P (ctx (l ! k)) MLX5_CMD_OP_ALLOC_PD (hw w)) = h1"
      by simp
    with that assms(3) have "unat (rte_vhost_get_vring_num P v
                 (snd (dv_devx_obj_create P (ctx (l ! k)) MLX5_CMD_OP_ALLOC_PD (hw w))))
               \<le> length (virtq (l ! k))" by simp
    with assms(1) show ?thesis by (rule dev_config_no_fault)
  qed
  have p2: "(pd = None \<longrightarrow>
           r = - 1 \<and>
           since w w' = [DevxObjCreate MLX5_CMD_OP_ALLOC_PD None,
                         DrvLog ERR ''PD allocation failure'' [],
                         DrvLog ERR ''Error allocating PD'' []] \<and>
           virtq (l' ! k) = virtq (l ! k))"
    and p3: "(pd \<noteq> None \<longrightarrow>
           r = 0 \<and>
           nr_vring (l' ! k) = rte_vhost_get_vring_num P v h1 \<and>
           pdn (l' ! k) = out_pd out \<and>
           (\<exists>tl. since w w' = DevxObjCreate MLX5_CMD_OP_ALLOC_PD pd #
                    concat (map (rq_events v) (zip (filter even [0..<N]) rqs)) @ tl \<and>
                  devx_creates tl = []) \<and>
           devx_creates (since w w') = (MLX5_CMD_OP_ALLOC_PD, pd) # rqs \<and>
           length (virtq (l' ! k)) = length (virtq (l ! k)) \<and>
           (\<forall>m < length (virtq (l ! k)).
              rq_obj (virtq (l' ! k) ! m) =
                (if even m \<and> m < N \<and> snd (rqs ! (m div 2)) \<noteq> None
                 then snd (rqs ! (m div 2)) else rq_obj (virtq (l ! k) ! m))))"
    if "mlx5_vdpa_dev_config P v l w = Inr (r, l', w')"
    using dev_config_run[OF assms that] by blast+
  have p4: "(\<forall>m < length (virtq (l ! k)). rq_obj (virtq (l ! k) ! m) = None) \<longrightarrow>
              (\<forall>m < length (virtq (l ! k)).
                 rq_obj (virtq (l' ! k) ! m) =
                   (if even m \<and> m < N then snd (rqs ! (m div 2)) else None))"
    if sl: "\<forall>m < length (virtq (l ! k)).
              rq_obj (virtq (l' ! k) ! m) =
                (if even m \<and> m < N \<and> snd (rqs ! (m div 2)) \<noteq> None
                 then snd (rqs ! (m div 2)) else rq_obj (virtq (l ! k) ! m))"
  proof (intro impI allI)
    fix m assume fr: "\<forall>m < length (virtq (l ! k)). rq_obj (virtq (l ! k) ! m) = None"
      and m: "m < length (virtq (l ! k))"
    from sl m fr show "rq_obj (virtq (l' ! k) ! m) =
                   (if even m \<and> m < N then snd (rqs ! (m div 2)) else None)"
      by auto
  qed
  have p5: "length rqs = length (filter even [0..<N])"
    unfolding assms(4) by (rule rq_creations_length)
  have p6: "\<forall>x \<in> set rqs. \<exists>sz. fst x = MLX5_CMD_OP_CREATE_RQ SPECIAL_CQ_FOR_VDPA sz (out_pd out)"
    unfolding assms(4) by (intro ballI) (rule rq_creations_cmds)
  from p1 p2 p3 p4 p5 p6 show ?thesis by blast
qed


lemma find_reg_eval:
  "find_priv_resource_by_did [priv_reg] (rte_vhost_get_vdpa_device_id sim4 0 h) = Some 0"
  by (simp add: sim_eval sim4_def priv_reg_def zeroed_priv_def)

lemma dev_config_partial_failure_eval:
  "mlx5_vdpa_dev_config sim4 0 [priv_reg] world_rq2_fails = Inr (0, [priv_partial], world_partial)"
  by (simp add: config_eval sim4_def world_rq2_fails_def priv_partial_def priv_cfg_def world_partial_def)

lemma dev_config_stale_eval:
  "mlx5_vdpa_dev_config sim2 0 [priv_closed] world_rq_fails = Inr (0, [priv_stale], world_stale)"
  by (simp add: config_eval priv_closed_def priv_cfg_def priv_stale_def world_stale_def world_rq_fails_def)


text \<open>
  The theorem at two configurations. The partial failure of the spec: four rings, the
  creation for ring 0 succeeds and the one for ring 2 fails; the configuration returns
  0, the objects created are the protection domain and the queue of ring 0, and slot 0
  holds object 2. And the closed context, whose slot 0 holds a handle: two rings, the
  creation for ring 0 fails; the configuration returns 0 and slot 0 keeps the handle.
\<close>

theorem dev_config_provisions_even_rings_witness:
  "find_priv_resource_by_did [priv_reg] (rte_vhost_get_vdpa_device_id sim4 0 (hw world_rq2_fails)) = Some 0 \<and>
   dv_devx_obj_create sim4 (ctx ([priv_reg] ! 0)) MLX5_CMD_OP_ALLOC_PD (hw world_rq2_fails) =
     ((Some 1, sim_out 1), sim0\<lparr>sim_next := 2, sim_create := [True, False]\<rparr>) \<and>
   (4 :: nat) = unat (rte_vhost_get_vring_num sim4 0 (sim0\<lparr>sim_next := 2, sim_create := [True, False]\<rparr>)) \<and>
   [(MLX5_CMD_OP_CREATE_RQ 0 8 1, Some 2), (MLX5_CMD_OP_CREATE_RQ 0 8 1, None)] =
     rq_creations sim4 (ctx ([priv_reg] ! 0)) 0 (out_pd (sim_out 1)) (filter even [0..<4])
       (sim0\<lparr>sim_next := 2, sim_create := [True, False]\<rparr>) \<and>
   mlx5_vdpa_dev_config sim4 0 [priv_reg] world_rq2_fails = Inr (0, [priv_partial], world_partial) \<and>
   devx_creates (since world_rq2_fails world_partial) =
     [(MLX5_CMD_OP_ALLOC_PD, Some 1), (MLX5_CMD_OP_CREATE_RQ 0 8 1, Some 2),
      (MLX5_CMD_OP_CREATE_RQ 0 8 1, None)] \<and>
   nr_vring ([priv_partial] ! 0) = 4 \<and>
   rq_obj (virtq ([priv_partial] ! 0) ! 0) = Some 2 \<and>
   rq_obj (virtq ([priv_partial] ! 0) ! 1) = None \<and>
   find_priv_resource_by_did [priv_closed] (rte_vhost_get_vdpa_device_id sim2 0 (hw world_rq_fails)) = Some 0 \<and>
   dv_devx_obj_create sim2 (ctx ([priv_closed] ! 0)) MLX5_CMD_OP_ALLOC_PD (hw world_rq_fails) =
     ((Some 1, sim_out 1), sim0\<lparr>sim_next := 2, sim_create := [False]\<rparr>) \<and>
   (2 :: nat) = unat (rte_vhost_get_vring_num sim2 0 (sim0\<lparr>sim_next := 2, sim_create := [False]\<rparr>)) \<and>
   [(MLX5_CMD_OP_CREATE_RQ 0 8 1, None)] =
     rq_creations sim2 (ctx ([priv_closed] ! 0)) 0 (out_pd (sim_out 1)) (filter even [0..<2])
       (sim0\<lparr>sim_next := 2, sim_create := [False]\<rparr>) \<and>
   2 \<le> length (virtq ([priv_closed] ! 0)) \<and>
   mlx5_vdpa_dev_config sim2 0 [priv_closed] world_rq_fails = Inr (0, [priv_stale], world_stale) \<and>
   devx_creates (since world_rq_fails world_stale) =
     [(MLX5_CMD_OP_ALLOC_PD, Some 1), (MLX5_CMD_OP_CREATE_RQ 0 8 1, None)] \<and>
   nr_vring ([priv_stale] ! 0) = 2 \<and>
   rq_obj (virtq ([priv_closed] ! 0) ! 0) = Some 2 \<and>
   rq_obj (virtq ([priv_stale] ! 0) ! 0) = Some 2 \<and>
   rq_obj (virtq ([priv_stale] ! 0) ! 1) = None"
proof -
  let ?g1 = "sim0\<lparr>sim_next := 2, sim_create := [True, False]\<rparr>"
  let ?R = "[(MLX5_CMD_OP_CREATE_RQ 0 8 1, Some 2), (MLX5_CMD_OP_CREATE_RQ 0 8 1, None :: obj_ptr)]"
  have fb: "find_priv_resource_by_did [priv_reg]
      (rte_vhost_get_vdpa_device_id sim4 0 (hw world_rq2_fails)) = Some 0"
    by (rule find_reg_eval)
  have cb: "dv_devx_obj_create sim4 (ctx ([priv_reg] ! 0)) MLX5_CMD_OP_ALLOC_PD (hw world_rq2_fails) =
     ((Some 1, sim_out 1), ?g1)"
    by (simp add: sim_eval sim4_def world_rq2_fails_def)
  have Nb: "(4 :: nat) = unat (rte_vhost_get_vring_num sim4 0 ?g1)"
    by (simp add: sim_eval sim4_def)
  have Eb: "filter even [0..<4] = [0 :: nat, 2]" by (simp add: upt_rec)
  have rb: "?R = rq_creations sim4 (ctx ([priv_reg] ! 0)) 0 (out_pd (sim_out 1)) (filter even [0..<4]) ?g1"
    unfolding Eb by (simp add: sim_eval sim4_def SPECIAL_CQ_FOR_VDPA_def)
  have oldb: "rq_obj (virtq ([priv_reg] ! 0) ! 0) = None" "rq_obj (virtq ([priv_reg] ! 0) ! 1) = None"
    by (simp_all add: priv_reg_def zeroed_priv_def MLX5_VDPA_SW_MAX_VIRTQS_SUPPORTED_def replicate_two)
  note tb = dev_config_provisions_even_rings[OF fb cb Nb rb, of 0 "[priv_partial]" world_partial]
  from tb have "Some (1 :: nat) \<noteq> None \<longrightarrow>
           (0 :: int) = 0 \<and>
           nr_vring ([priv_partial] ! 0) = rte_vhost_get_vring_num sim4 0 ?g1 \<and>
           pdn ([priv_partial] ! 0) = out_pd (sim_out 1) \<and>
           (\<exists>tl. since world_rq2_fails world_partial = DevxObjCreate MLX5_CMD_OP_ALLOC_PD (Some 1) #
                    concat (map (rq_events 0) (zip (filter even [0..<4]) ?R)) @ tl \<and>
                  devx_creates tl = []) \<and>
           devx_creates (since world_rq2_fails world_partial) = (MLX5_CMD_OP_ALLOC_PD, Some 1) # ?R \<and>
           length (virtq ([priv_partial] ! 0)) = length (virtq ([priv_reg] ! 0)) \<and>
           (\<forall>m < length (virtq ([priv_reg] ! 0)).
              rq_obj (virtq ([priv_partial] ! 0) ! m) =
                (if even m \<and> m < 4 \<and> snd (?R ! (m div 2)) \<noteq> None
                 then snd (?R ! (m div 2))
                 else rq_obj (virtq ([priv_reg] ! 0) ! m)))"
    using dev_config_partial_failure_eval by blast
  then have xb: "nr_vring ([priv_partial] ! 0) = rte_vhost_get_vring_num sim4 0 ?g1"
    "devx_creates (since world_rq2_fails world_partial) =
       [(MLX5_CMD_OP_ALLOC_PD, Some 1), (MLX5_CMD_OP_CREATE_RQ 0 8 1, Some 2),
        (MLX5_CMD_OP_CREATE_RQ 0 8 1, None)]"
    and slb: "\<forall>m < length (virtq ([priv_reg] ! 0)).
              rq_obj (virtq ([priv_partial] ! 0) ! m) =
                (if even m \<and> m < 4 \<and> snd (?R ! (m div 2)) \<noteq> None
                 then snd (?R ! (m div 2))
                 else rq_obj (virtq ([priv_reg] ! 0) ! m))"
    by simp_all
  have lb0: "0 < length (virtq ([priv_reg] ! 0))" and lb1: "1 < length (virtq ([priv_reg] ! 0))"
    by (simp_all add: priv_reg_def zeroed_priv_def MLX5_VDPA_SW_MAX_VIRTQS_SUPPORTED_def)
  from slb[rule_format, OF lb0] have sb0: "rq_obj (virtq ([priv_partial] ! 0) ! 0) = Some 2" by simp
  from slb[rule_format, OF lb1] oldb have sb1: "rq_obj (virtq ([priv_partial] ! 0) ! 1) = None" by simp
  from xb(1) have nvb: "nr_vring ([priv_partial] ! 0) = 4" by (simp add: sim_eval sim4_def)
  let ?h1 = "sim0\<lparr>sim_next := 2, sim_create := [False]\<rparr>"
  have f: "find_priv_resource_by_did [priv_closed]
      (rte_vhost_get_vdpa_device_id sim2 0 (hw world_rq_fails)) = Some 0"
    by (simp add: sim_eval find_priv_resource_by_did_def priv_closed_def priv_cfg_def)
  have cpd: "dv_devx_obj_create sim2 (ctx ([priv_closed] ! 0)) MLX5_CMD_OP_ALLOC_PD (hw world_rq_fails) =
     ((Some 1, sim_out 1), ?h1)"
    by (simp add: sim_eval world_rq_fails_def)
  have N: "(2 :: nat) = unat (rte_vhost_get_vring_num sim2 0 ?h1)"
    by (simp add: sim_eval)
  have E: "filter even [0..<2] = [0 :: nat]" by (simp add: numeral_2_eq_2)
  have rqs: "[(MLX5_CMD_OP_CREATE_RQ 0 8 1, None)] =
     rq_creations sim2 (ctx ([priv_closed] ! 0)) 0 (out_pd (sim_out 1)) (filter even [0..<2]) ?h1"
    unfolding E by (simp add: sim_eval SPECIAL_CQ_FOR_VDPA_def)
  have len: "2 \<le> length (virtq ([priv_closed] ! 0))"
    by (simp add: priv_closed_def priv_cfg_def)
  have old: "rq_obj (virtq ([priv_closed] ! 0) ! 0) = Some 2"
    "rq_obj (virtq ([priv_closed] ! 0) ! 1) = None"
    by (simp_all add: priv_closed_def priv_cfg_def)
  note t = dev_config_provisions_even_rings[OF f cpd N rqs, of 0 "[priv_stale]" world_stale]
  from t have "Some (1 :: nat) \<noteq> None \<longrightarrow>
           (0 :: int) = 0 \<and>
           nr_vring ([priv_stale] ! 0) = rte_vhost_get_vring_num sim2 0 ?h1 \<and>
           pdn ([priv_stale] ! 0) = out_pd (sim_out 1) \<and>
           (\<exists>tl. since world_rq_fails world_stale = DevxObjCreate MLX5_CMD_OP_ALLOC_PD (Some 1) #
                    concat (map (rq_events 0) (zip (filter even [0..<2]) [(MLX5_CMD_OP_CREATE_RQ 0 8 1, None)])) @ tl \<and>
                  devx_creates tl = []) \<and>
           devx_creates (since world_rq_fails world_stale) =
             (MLX5_CMD_OP_ALLOC_PD, Some 1) # [(MLX5_CMD_OP_CREATE_RQ 0 8 1, None)] \<and>
           length (virtq ([priv_stale] ! 0)) = length (virtq ([priv_closed] ! 0)) \<and>
           (\<forall>m < length (virtq ([priv_closed] ! 0)).
              rq_obj (virtq ([priv_stale] ! 0) ! m) =
                (if even m \<and> m < 2 \<and> snd ([(MLX5_CMD_OP_CREATE_RQ 0 8 1, None :: obj_ptr)] ! (m div 2)) \<noteq> None
                 then snd ([(MLX5_CMD_OP_CREATE_RQ 0 8 1, None)] ! (m div 2))
                 else rq_obj (virtq ([priv_closed] ! 0) ! m)))"
    using dev_config_stale_eval by blast
  then have x: "nr_vring ([priv_stale] ! 0) = rte_vhost_get_vring_num sim2 0 ?h1"
    "devx_creates (since world_rq_fails world_stale) =
       [(MLX5_CMD_OP_ALLOC_PD, Some 1), (MLX5_CMD_OP_CREATE_RQ 0 8 1, None)]"
    and sl: "\<forall>m < length (virtq ([priv_closed] ! 0)).
              rq_obj (virtq ([priv_stale] ! 0) ! m) =
                (if even m \<and> m < 2 \<and> snd ([(MLX5_CMD_OP_CREATE_RQ 0 8 1, None :: obj_ptr)] ! (m div 2)) \<noteq> None
                 then snd ([(MLX5_CMD_OP_CREATE_RQ 0 8 1, None)] ! (m div 2))
                 else rq_obj (virtq ([priv_closed] ! 0) ! m))"
    by simp_all
  have l0: "0 < length (virtq ([priv_closed] ! 0))" and l1: "1 < length (virtq ([priv_closed] ! 0))"
    by (simp_all add: priv_closed_def priv_cfg_def)
  from sl[rule_format, OF l0] old have s0: "rq_obj (virtq ([priv_stale] ! 0) ! 0) = Some 2" by simp
  from sl[rule_format, OF l1] old have s1: "rq_obj (virtq ([priv_stale] ! 0) ! 1) = None" by simp
  from x(1) have nv: "nr_vring ([priv_stale] ! 0) = 2" by (simp add: sim_eval)
  from fb cb Nb rb dev_config_partial_failure_eval xb(2) nvb sb0 sb1
    f cpd N rqs len dev_config_stale_eval x(2) nv old(1) s0 s1
  show ?thesis by blast
qed

text \<open>
  The claim C5 fails in two places. With four rings and every creation succeeding, the
  creation for ring 2 is stored past the two slots of \<^verbatim>\<open>virtq\<close>: the configuration
  faults instead of returning success. And on the context a close has left, whose slot
  0 still holds the handle of the destroyed object 2, a configuration whose creation
  for ring 0 fails returns 0 with slot 0 populated.
\<close>

theorem dev_config_provisions_counterexample:
  "mlx5_vdpa_dev_config sim4 0 [priv_reg] world0 = Inl OutOfBounds \<and>
   mlx5_vdpa_dev_close sim2 0 [priv_cfg] world0 = Inr (0, [priv_closed], world_closed) \<and>
   mlx5_vdpa_dev_config sim2 0 [priv_closed] world_rq_fails = Inr (0, [priv_stale], world_stale) \<and>
   devx_creates (trace world_stale) =
     [(MLX5_CMD_OP_ALLOC_PD, Some 1), (MLX5_CMD_OP_CREATE_RQ 0 8 1, None)] \<and>
   rq_obj (virtq priv_stale ! 0) = Some 2"
  using dev_close_cfg_eval
  by (simp add: config_eval sim4_def priv_closed_def priv_cfg_def priv_stale_def world_stale_def
      world_rq_fails_def)

text \<open>
  C2, at the failing input. On the platform where \<^verbatim>\<open>mmap\<close> of the doorbell page fails,
  \<^verbatim>\<open>mlx5_vdpa_setup_notify_relay\<close> returns -1 for every context, and yet
  \<^verbatim>\<open>mlx5_vdpa_dev_config\<close> of the registered device 0 returns 0 and leaves the
  attachment flag at 1: the result of starting the relay is not looked at.
\<close>

theorem dev_config_ignores_relay_failure:
  "(\<forall>priv w. fst (mlx5_vdpa_setup_notify_relay sim_nomap priv w) = - 1) \<and>
   mlx5_vdpa_dev_config sim_nomap 0 [priv_reg] world0 =
     Inr (0, [priv_cfg\<lparr>relay := \<lparr>epfd = 0, tid = 0, notify_base = None\<rparr>\<rparr>],
       \<lparr>hw = sim0\<lparr>sim_next := 3\<rparr>,
        trace = [DevxObjCreate MLX5_CMD_OP_ALLOC_PD (Some 1), VhostGetVring 0 0,
                 DevxObjCreate (MLX5_CMD_OP_CREATE_RQ 0 8 1) (Some 2),
                 DrvLog DEBUG ''Notify offset is 0x% size is %'' [9437184, 4096],
                 Mmap 4096 3 9437184 None,
                 DrvLog ERR ''Mapping doorbell page failed. device: %d'' [0]]\<rparr>) \<and>
   dev_attached (priv_cfg\<lparr>relay := \<lparr>epfd = 0, tid = 0, notify_base = None\<rparr>\<rparr>) = 1"
  by (simp add: config_eval sim_nomap_def)

text \<open>
  C3, at the failing input. The accelerator advertises virtqueue objects and reports a
  maximum of 8 virtqueues; the emulation capabilities are queried, and the negotiated
  \<^verbatim>\<open>max_num_virtqs\<close> is 1: line 507 overwrites what line 501 stored.
\<close>

theorem query_virtio_caps_discards_hw_maximum:
  "out_general_obj_types emu_out AND 0x2000 \<noteq> 0 \<and> out_max_num_of_virtqs emu_out = 8 \<and>
   mlx5_vdpa_query_virtio_caps (sim_platform 2 True emu_out) 0x2000 (zeroed_priv \<lparr>cmd_fd = 3\<rparr>)
       \<lparr>hw = sim0, trace = []\<rparr> =
     (0, priv_reg,
      \<lparr>hw = sim0,
       trace = [DevxGeneralCmd (MLX5_CMD_OP_QUERY_HCA_CAP MLX5_HCA_CAP_GENERAL) 0,
                DevxGeneralCmd MLX5_CMD_OP_QUERY_SPECIAL_CONTEXTS 0,
                DrvLog DEBUG ''Virtio acceleration supported by the device!'' [],
                DevxGeneralCmd (MLX5_CMD_OP_QUERY_HCA_CAP MLX5_HCA_CAP_DEVICE_EMULATION) 0,
                DrvLog DEBUG ''Virtio Caps:'' [],
                DrvLog DEBUG ''dump_mkey=0x%x '' [1792],
                DrvLog DEBUG ''max_num_virtqs=0x%x '' [1],
                DrvLog DEBUG ''features_bits=0x%'' [uint MLX5_VDPA_FEATURES]]\<rparr>) \<and>
   max_num_virtqs (caps priv_reg) = 1"
  by (simp add: sim_eval emu_out_def priv_reg_def zeroed_priv_def mlx5_vdpa_query_virtio_caps_def
      caps_tail_def MLX5_VDPA_SW_MAX_VIRTQS_SUPPORTED_def)

subsection \<open>The registry\<close>





















end
